theory Spec2Isabelle
  imports Complex_Main "HOL-Library.AList"
begin

section \<open>JavaScript values of the spreadsheet pipeline\<close>

text \<open>
  The routes in \<^verbatim>\<open>backend/routes/charts.js\<close> and \<^verbatim>\<open>backend/routes/files.js\<close> work on the
  array-of-arrays that \<^verbatim>\<open>XLSX.utils.sheet_to_json(sheet, { header: 1 })\<close> returns. A cell is a
  JavaScript primitive. Numbers are IEEE doubles in the program; here a finite number is an
  exact rational, so rounding, overflow to \<open>Infinity\<close> and underflow to zero are not part of
  the model. \<open>NaN\<close> and the two infinities are kept, since the code tests for them.
\<close>

datatype jsnum = NaN | Fin rat | PosInf | NegInf

datatype jsval = JUndefined | JNull | JBool bool | JNum jsnum | JStr string

text \<open>
  A row is a sparse array: the reader leaves a hole where the sheet has no cell. \<open>None\<close> is
  a hole. Reading a hole, or reading past the end, gives \<open>undefined\<close>; \<^verbatim>\<open>map\<close>, \<^verbatim>\<open>filter\<close> and
  \<^verbatim>\<open>indexOf\<close> skip holes.
\<close>

type_synonym jsarray = "jsval option list"

definition cellAt :: "jsarray \<Rightarrow> nat \<Rightarrow> jsval" where
  "cellAt row i = (if i < length row then (case row ! i of None \<Rightarrow> JUndefined | Some v \<Rightarrow> v)
               else JUndefined)"

subsection \<open>\<^verbatim>\<open>Number(v)\<close>: the StringToNumber grammar\<close>

text \<open>
  Strings are byte strings; white space is the ASCII part of the language's white space and
  line terminators (tab, line feed, vertical tab, form feed, carriage return, space).
\<close>

definition isWhiteSpace :: "char \<Rightarrow> bool" where
  "isWhiteSpace c = (let n = (of_char c :: nat) in (9 \<le> n \<and> n \<le> 13) \<or> n = 32)"

definition trimJ :: "string \<Rightarrow> string" where
  "trimJ s = rev (dropWhile isWhiteSpace (rev (dropWhile isWhiteSpace s)))"

definition digitOf :: "int \<Rightarrow> char \<Rightarrow> int option" where
  "digitOf b c =
     (let n = (of_char c :: int);
          d = (if 48 \<le> n \<and> n \<le> 57 then Some (n - 48)
               else if 97 \<le> n \<and> n \<le> 102 then Some (n - 87)
               else if 65 \<le> n \<and> n \<le> 70 then Some (n - 55)
               else None)
      in case d of None \<Rightarrow> None | Some v \<Rightarrow> if v < b then Some v else None)"

fun digitsVal :: "int \<Rightarrow> int \<Rightarrow> string \<Rightarrow> int option" where
  "digitsVal b acc [] = Some acc"
| "digitsVal b acc (c # cs) =
     (case digitOf b c of None \<Rightarrow> None | Some d \<Rightarrow> digitsVal b (acc * b + d) cs)"

definition natLit :: "int \<Rightarrow> string \<Rightarrow> int option" where
  "natLit b s = (if s = [] then None else digitsVal b 0 s)"

definition isDigit :: "char \<Rightarrow> bool" where
  "isDigit c = (digitOf 10 c \<noteq> None)"

definition exponentPart :: "string \<Rightarrow> int option" where
  "exponentPart s =
     (case s of
        [] \<Rightarrow> Some 0
      | c # r \<Rightarrow>
          if c = CHR ''e'' \<or> c = CHR ''E'' then
            (case r of
               [] \<Rightarrow> None
             | d # r' \<Rightarrow>
                 if d = CHR ''+'' then natLit 10 r'
                 else if d = CHR ''-'' then map_option uminus (natLit 10 r')
                 else natLit 10 r)
          else None)"

definition pow10 :: "int \<Rightarrow> rat" where
  "pow10 e = (if 0 \<le> e then 10 ^ nat e else 1 / 10 ^ nat (- e))"

definition unsignedDecimal :: "string \<Rightarrow> jsnum" where
  "unsignedDecimal s =
     (if s = ''Infinity'' then PosInf
      else
        let ip = takeWhile isDigit s;
            r1 = dropWhile isDigit s;
            hasDot = (r1 \<noteq> [] \<and> hd r1 = CHR ''.'');
            fp = (if hasDot then takeWhile isDigit (tl r1) else []);
            r2 = (if hasDot then dropWhile isDigit (tl r1) else r1)
        in if ip = [] \<and> fp = [] then NaN
           else (case (natLit 10 (ip @ fp), exponentPart r2) of
                   (Some m, Some e) \<Rightarrow> Fin (of_int m * pow10 (e - int (length fp)))
                 | _ \<Rightarrow> NaN))"

fun negNum :: "jsnum \<Rightarrow> jsnum" where
  "negNum NaN = NaN"
| "negNum (Fin q) = Fin (- q)"
| "negNum PosInf = NegInf"
| "negNum NegInf = PosInf"

definition radixLit :: "int \<Rightarrow> string \<Rightarrow> jsnum" where
  "radixLit b s = (case natLit b s of None \<Rightarrow> NaN | Some n \<Rightarrow> Fin (of_int n))"

definition stringToNumber :: "string \<Rightarrow> jsnum" where
  "stringToNumber str =
     (let s = trimJ str in
      if s = [] then Fin 0
      else if take 2 s = ''0x'' \<or> take 2 s = ''0X'' then radixLit 16 (drop 2 s)
      else if take 2 s = ''0b'' \<or> take 2 s = ''0B'' then radixLit 2 (drop 2 s)
      else if take 2 s = ''0o'' \<or> take 2 s = ''0O'' then radixLit 8 (drop 2 s)
      else if hd s = CHR ''+'' then unsignedDecimal (tl s)
      else if hd s = CHR ''-'' then negNum (unsignedDecimal (tl s))
      else unsignedDecimal s)"

fun js_Number :: "jsval \<Rightarrow> jsnum" where
  "js_Number JUndefined = NaN"
| "js_Number JNull = Fin 0"
| "js_Number (JBool b) = (if b then Fin 1 else Fin 0)"
| "js_Number (JNum n) = n"
| "js_Number (JStr s) = stringToNumber s"

definition js_isNaN :: "jsnum \<Rightarrow> bool" where
  "js_isNaN n = (n = NaN)"

text \<open>\<^verbatim>\<open>n || 0\<close> on a number: \<open>NaN\<close> and zero are falsy.\<close>

definition orZero :: "jsnum \<Rightarrow> jsnum" where
  "orZero n = (if n = NaN \<or> n = Fin 0 then Fin 0 else n)"


subsection \<open>Truthiness, \<^verbatim>\<open>String(v)\<close> and \<^verbatim>\<open>+\<close>\<close>

fun truthy :: "jsval \<Rightarrow> bool" where
  "truthy JUndefined = False"
| "truthy JNull = False"
| "truthy (JBool b) = b"
| "truthy (JNum n) = (n \<noteq> NaN \<and> n \<noteq> Fin 0)"
| "truthy (JStr s) = (s \<noteq> [])"

text \<open>
  The decimal text of a number (\<^verbatim>\<open>Number::toString\<close>) belongs to the runtime; every
  definition that needs it takes it as the parameter \<open>ns\<close>.
\<close>

fun js_String :: "(jsnum \<Rightarrow> string) \<Rightarrow> jsval \<Rightarrow> string" where
  "js_String ns JUndefined = ''undefined''"
| "js_String ns JNull = ''null''"
| "js_String ns (JBool b) = (if b then ''true'' else ''false'')"
| "js_String ns (JNum n) = ns n"
| "js_String ns (JStr s) = s"

fun addNum :: "jsnum \<Rightarrow> jsnum \<Rightarrow> jsnum" where
  "addNum NaN _ = NaN"
| "addNum _ NaN = NaN"
| "addNum (Fin a) (Fin b) = Fin (a + b)"
| "addNum (Fin a) PosInf = PosInf"
| "addNum (Fin a) NegInf = NegInf"
| "addNum PosInf (Fin b) = PosInf"
| "addNum NegInf (Fin b) = NegInf"
| "addNum PosInf PosInf = PosInf"
| "addNum NegInf NegInf = NegInf"
| "addNum PosInf NegInf = NaN"
| "addNum NegInf PosInf = NaN"

fun includesJ :: "string \<Rightarrow> string \<Rightarrow> bool" where
  "includesJ [] sub = (sub = [])"
| "includesJ (c # cs) sub = (take (length sub) (c # cs) = sub \<or> includesJ cs sub)"

section \<open>Column classification (\<^verbatim>\<open>columnAnalysis\<close> in \<^verbatim>\<open>POST /autogen\<close>)\<close>

datatype coltype = Empty | Numeric | Categorical

record colinfo =
  index :: nat
  header :: jsval
  numericCount :: "nat option"
  stringCount :: "nat option"
  totalValues :: "nat option"
  hasData :: bool
  ctype :: coltype

definition isBlank :: "jsval \<Rightarrow> bool" where
  "isBlank val = (val = JNull \<or> val = JUndefined \<or> val = JStr [])"

definition isNumber :: "jsval \<Rightarrow> bool" where
  "isNumber val = (case val of JNum _ \<Rightarrow> True | _ \<Rightarrow> False)"

definition isString :: "jsval \<Rightarrow> bool" where
  "isString val = (case val of JStr _ \<Rightarrow> True | _ \<Rightarrow> False)"

definition columnValues :: "jsarray list \<Rightarrow> nat \<Rightarrow> jsval list" where
  "columnValues rows i = filter (\<lambda>val. \<not> isBlank val) (map (\<lambda>row. cellAt row i) rows)"

text \<open>The callback of \<^verbatim>\<open>headers.map((header, index) => ...)\<close>.\<close>

definition analyseColumn :: "jsarray list \<Rightarrow> nat \<Rightarrow> jsval \<Rightarrow> colinfo" where
  "analyseColumn rows i h =
     (let values = columnValues rows i in
      if length values = 0 then
        \<lparr>index = i, header = h, numericCount = None, stringCount = None, totalValues = None,
         hasData = False, ctype = Empty\<rparr>
      else
        let nc = length (filter (\<lambda>val. isNumber val \<or> \<not> js_isNaN (js_Number val)) values);
            sc = length (filter (\<lambda>val. isString val \<and> js_isNaN (js_Number val)) values)
        in \<lparr>index = i, header = h, numericCount = Some nc, stringCount = Some sc,
            totalValues = Some (length values), hasData = (length values > 0),
            ctype = (if nc > sc then Numeric else Categorical)\<rparr>)"

text \<open>\<^verbatim>\<open>map\<close> leaves a hole of the header row a hole.\<close>

definition columnAnalysis :: "jsarray \<Rightarrow> jsarray list \<Rightarrow> colinfo option list" where
  "columnAnalysis headers rows =
     map (\<lambda>(i, slot). map_option (analyseColumn rows i) slot) (enumerate 0 headers)"

text \<open>\<^verbatim>\<open>columnAnalysis.filter(col => col.type === t && col.hasData)\<close>; holes are skipped.\<close>

definition columnsOfType :: "coltype \<Rightarrow> colinfo option list \<Rightarrow> colinfo list" where
  "columnsOfType t cols = filter (\<lambda>col. ctype col = t \<and> hasData col) (List.map_filter id cols)"

section \<open>Data cleaning\<close>

type_synonym point = "jsval \<times> jsnum"

definition nonEmptyRows :: "jsarray list \<Rightarrow> jsarray list" where
  "nonEmptyRows json = filter (\<lambda>row. length row > 0) (tl json)"

text \<open>\<^verbatim>\<open>POST /autogen\<close>, lines 94 to 100.\<close>

definition cleanDataAuto :: "jsarray list \<Rightarrow> nat \<Rightarrow> nat \<Rightarrow> point list" where
  "cleanDataAuto rows xi yi =
     take 20
       (filter (\<lambda>item. fst item \<noteq> JNull \<and> fst item \<noteq> JUndefined \<and> fst item \<noteq> JStr []
                       \<and> \<not> js_isNaN (snd item))
          (map (\<lambda>row. (cellAt row xi, orZero (js_Number (cellAt row yi)))) rows))"

text \<open>
  \<^verbatim>\<open>POST /\<close>, lines 187 to 199. Both branches of the conditional on the chart type are the
  same expression. \<^verbatim>\<open>item.y !== null\<close> holds of every number, so the type of \<open>y\<close> leaves
  nothing of it.
\<close>

definition cleanDataManual :: "string \<Rightarrow> jsarray list \<Rightarrow> nat \<Rightarrow> nat \<Rightarrow> point list" where
  "cleanDataManual chartType rows xi yi =
     take 50
       (filter (\<lambda>item.
            let hasValidX = (fst item \<noteq> JNull \<and> fst item \<noteq> JUndefined \<and> fst item \<noteq> JStr []);
                hasValidY = (\<not> js_isNaN (snd item))
            in hasValidX \<and> hasValidY)
          (map (\<lambda>row. (cellAt row xi,
                        if chartType = ''pie'' \<or> chartType = ''doughnut''
                        then orZero (js_Number (cellAt row yi))
                        else orZero (js_Number (cellAt row yi)))) rows))"

section \<open>Chart configuration\<close>

record dataset =
  label :: jsval
  data :: "jsval list"

record config =
  labels :: "jsval list"
  datasets :: "dataset list"

text \<open>
  The style fields of a dataset (\<^verbatim>\<open>backgroundColor\<close>, \<^verbatim>\<open>borderColor\<close>, \<^verbatim>\<open>borderWidth\<close>,
  \<^verbatim>\<open>fill\<close>) are constants chosen by chart type and are left out.
\<close>

subsection \<open>The accumulator object of the pie aggregation\<close>

text \<open>
  \<^verbatim>\<open>aggregatedData\<close> is a plain object: its own properties, in creation order, over
  \<^verbatim>\<open>Object.prototype\<close>. A read of a name the object does not own finds the inherited
  property; \<open>protoToString\<close> gives, for each property name of \<^verbatim>\<open>Object.prototype\<close>, the
  text the inherited value turns into under \<^verbatim>\<open>+\<close> (as Node prints it).
\<close>

type_synonym jsobject = "(string \<times> jsval) list"

datatype propval = Prim jsval | Builtin string

definition protoMethods :: "string list" where
  "protoMethods = [''constructor'', ''hasOwnProperty'', ''isPrototypeOf'',
     ''propertyIsEnumerable'', ''toLocaleString'', ''toString'', ''valueOf'',
     ''__defineGetter__'', ''__defineSetter__'', ''__lookupGetter__'', ''__lookupSetter__'']"

definition protoToString :: "string \<Rightarrow> string option" where
  "protoToString k =
     (if k = ''__proto__'' then Some ''[object Object]''
      else if k = ''constructor'' then Some ''function Object() { [native code] }''
      else if k \<in> set protoMethods then Some (''function '' @ k @ ''() { [native code] }'')
      else None)"

definition getProp :: "jsobject \<Rightarrow> string \<Rightarrow> propval" where
  "getProp obj k =
     (case map_of obj k of
        Some v \<Rightarrow> Prim v
      | None \<Rightarrow> (case protoToString k of None \<Rightarrow> Prim JUndefined | Some src \<Rightarrow> Builtin src))"

text \<open>
  An assignment updates an own property in place or appends a new one. Assigning a
  primitive to \<^verbatim>\<open>__proto__\<close> runs the inherited setter, which ignores it.
\<close>

definition setProp :: "jsobject \<Rightarrow> string \<Rightarrow> jsval \<Rightarrow> jsobject" where
  "setProp obj k v = (if k = ''__proto__'' then obj else AList.update k v obj)"

definition orZeroP :: "propval \<Rightarrow> propval" where
  "orZeroP p = (case p of Prim v \<Rightarrow> if truthy v then Prim v else Prim (JNum (Fin 0))
                        | Builtin src \<Rightarrow> Builtin src)"

definition plusP :: "(jsnum \<Rightarrow> string) \<Rightarrow> propval \<Rightarrow> jsnum \<Rightarrow> jsval" where
  "plusP ns p y =
     (case p of
        Builtin src \<Rightarrow> JStr (src @ ns y)
      | Prim (JStr s) \<Rightarrow> JStr (s @ ns y)
      | Prim v \<Rightarrow> JNum (addNum (js_Number v) y))"

definition aggStep :: "(jsnum \<Rightarrow> string) \<Rightarrow> jsobject \<Rightarrow> point \<Rightarrow> jsobject" where
  "aggStep ns acc item =
     (let key = js_String ns (fst item)
      in setProp acc key (plusP ns (orZeroP (getProp acc key)) (snd item)))"

definition aggregate :: "(jsnum \<Rightarrow> string) \<Rightarrow> point list \<Rightarrow> jsobject" where
  "aggregate ns cleanData = foldl (aggStep ns) [] cleanData"

text \<open>
  Own property order: names that are array indices (canonical decimal, at most
  \<open>2^32 - 2\<close>) first, ascending, then the other names in creation order.
\<close>

definition arrayIndex :: "string \<Rightarrow> int option" where
  "arrayIndex k =
     (case natLit 10 k of
        None \<Rightarrow> None
      | Some n \<Rightarrow> if (k = ''0'' \<or> hd k \<noteq> CHR ''0'') \<and> n \<le> 4294967294 then Some n else None)"

definition indexKey :: "string \<Rightarrow> int" where
  "indexKey k = (case arrayIndex k of None \<Rightarrow> 0 | Some n \<Rightarrow> n)"

definition ownEntries :: "jsobject \<Rightarrow> jsobject" where
  "ownEntries obj =
     sort_key (\<lambda>e. indexKey (fst e)) (filter (\<lambda>e. arrayIndex (fst e) \<noteq> None) obj)
     @ filter (\<lambda>e. arrayIndex (fst e) = None) obj"

definition Object_keys :: "jsobject \<Rightarrow> string list" where
  "Object_keys obj = map fst (ownEntries obj)"

definition Object_values :: "jsobject \<Rightarrow> jsval list" where
  "Object_values obj = map snd (ownEntries obj)"

subsection \<open>\<^verbatim>\<open>chartConfig\<close> of manual creation, lines 205 to 247\<close>

definition manualConfig ::
  "(jsnum \<Rightarrow> string) \<Rightarrow> string \<Rightarrow> jsarray \<Rightarrow> nat \<Rightarrow> point list \<Rightarrow> config" where
  "manualConfig ns chartType headers yIdx cleanData =
     (if chartType = ''pie'' \<or> chartType = ''doughnut'' then
        let aggregatedData = aggregate ns cleanData
        in \<lparr>labels = map JStr (Object_keys aggregatedData),
            datasets = [\<lparr>label = cellAt headers yIdx, data = Object_values aggregatedData\<rparr>]\<rparr>
      else
        \<lparr>labels = map (\<lambda>item. JStr (js_String ns (fst item))) cleanData,
         datasets = [\<lparr>label = cellAt headers yIdx,
                      data = map (\<lambda>item. JNum (snd item)) cleanData\<rparr>]\<rparr>)"


section \<open>Stored records and the document store\<close>

record uploadedFile =
  fid :: nat
  filename :: string
  originalName :: string
  mimetype :: string
  fsize :: nat
  path :: string
  uploadedBy :: nat

record chart =
  cid :: nat
  title :: string
  description :: "string option"
  chartType :: string
  chartConfig :: config
  sourceFile :: nat
  createdBy :: nat
  isPublic :: bool
  tags :: "jsval list"

text \<open>
  What a path on disk holds: a workbook, given by the rows of its first sheet as
  \<^verbatim>\<open>sheet_to_json\<close> returns them, or bytes that \<^verbatim>\<open>XLSX.readFile\<close> cannot read.
\<close>

datatype content = Unreadable | Workbook "jsarray list"

record store =
  files :: "uploadedFile list"
  charts :: "chart list"
  disk :: "string \<Rightarrow> content option"
  nextId :: nat

text \<open>\<open>None\<close>: \<^verbatim>\<open>XLSX.readFile\<close> throws.\<close>

definition readSheet :: "store \<Rightarrow> string \<Rightarrow> jsarray list option" where
  "readSheet st p = (case disk st p of Some (Workbook json) \<Rightarrow> Some json | _ \<Rightarrow> None)"

text \<open>A rejected request: status code and message.\<close>

datatype reject = Reject nat string

subsection \<open>The validators of the chart schema, run by \<^verbatim>\<open>save()\<close>\<close>

definition chartTypeEnum :: "string list" where
  "chartTypeEnum = [''bar'', ''line'', ''pie'', ''doughnut'', ''scatter'', ''area'',
     ''column'', ''histogram'', ''bubble'', ''radar'', ''polar'',
     ''funnel'', ''waterfall'', ''heatmap'', ''treemap'']"

text \<open>The title is stored trimmed (\<^verbatim>\<open>trim: true\<close>); the constructors below trim it.\<close>

definition validChart :: "chart \<Rightarrow> bool" where
  "validChart c =
     (title c \<noteq> [] \<and> length (title c) \<le> 100
      \<and> (case description c of None \<Rightarrow> True | Some d \<Rightarrow> length d \<le> 500)
      \<and> chartType c \<in> set chartTypeEnum)"

text \<open>
  \<^verbatim>\<open>new Chart(...)\<close> draws a fresh identifier, \<^verbatim>\<open>save()\<close> validates and stores. \<open>None\<close>:
  \<^verbatim>\<open>save()\<close> throws; the identifier is spent all the same.
\<close>

definition spendId :: "store \<Rightarrow> store" where
  "spendId st = st\<lparr>nextId := Suc (nextId st)\<rparr>"

definition saveChart :: "store \<Rightarrow> chart \<Rightarrow> store option" where
  "saveChart st c = (if validChart c then Some (st\<lparr>charts := charts st @ [c]\<rparr>) else None)"

section \<open>\<^verbatim>\<open>POST /autogen\<close>\<close>

datatype skipped =
  ChartExists | NotExcel | NotEnoughRows | NoDataRows | NoColumnPair | NoDataPoints | Thrown

text \<open>Lines 108 to 117: the configuration built from the cleaned data.\<close>

definition autoConfig :: "(jsnum \<Rightarrow> string) \<Rightarrow> colinfo \<Rightarrow> point list \<Rightarrow> config" where
  "autoConfig ns yColumn cleanData =
     \<lparr>labels = map (\<lambda>item. JStr (js_String ns (fst item))) cleanData,
      datasets =
        [\<lparr>label = (if truthy (header yColumn) then header yColumn else JStr ''Values''),
          data = map (\<lambda>item. JNum (snd item)) cleanData\<rparr>]\<rparr>"

text \<open>Lines 46 to 128 for one file whose sheet has been read; \<open>newId\<close> is the fresh identifier.\<close>

definition autogenDraft ::
  "(jsnum \<Rightarrow> string) \<Rightarrow> nat \<Rightarrow> uploadedFile \<Rightarrow> jsarray list \<Rightarrow> nat \<Rightarrow> skipped + chart" where
  "autogenDraft ns uid f json newId =
     (if length json < 2 then Inl NotEnoughRows
      else
        let headers = hd json;
            rows = nonEmptyRows json
        in if length rows = 0 then Inl NoDataRows
           else
             let analysis = columnAnalysis headers rows;
                 categoricalColumns = columnsOfType Categorical analysis;
                 numericColumns = columnsOfType Numeric analysis
             in if length categoricalColumns = 0 \<or> length numericColumns = 0 then Inl NoColumnPair
                else
                  let xColumn = hd categoricalColumns;
                      yColumn = hd numericColumns;
                      cleanData = cleanDataAuto rows (index xColumn) (index yColumn)
                  in if length cleanData = 0 then Inl NoDataPoints
                     else Inr
                       \<lparr>cid = newId,
                        title = trimJ (originalName f @ '' - '' @ js_String ns (header yColumn)
                                       @ '' by '' @ js_String ns (header xColumn)),
                        description = Some (''Auto-generated bar chart from '' @ originalName f),
                        chartType = ''bar'',
                        chartConfig = autoConfig ns yColumn cleanData,
                        sourceFile = fid f,
                        createdBy = uid,
                        isPublic = False,
                        tags = filter truthy [header xColumn, header yColumn]\<rparr>)"

text \<open>One turn of the loop over the user's files. Every exception of the inner \<^verbatim>\<open>try\<close> is caught.\<close>

definition autogenFile ::
  "(jsnum \<Rightarrow> string) \<Rightarrow> nat \<Rightarrow> store \<Rightarrow> uploadedFile \<Rightarrow> store \<times> (skipped + chart)" where
  "autogenFile ns uid st f =
     (if find (\<lambda>c. sourceFile c = fid f \<and> createdBy c = uid) (charts st) \<noteq> None
      then (st, Inl ChartExists)
      else if \<not> includesJ (mimetype f) ''excel'' \<and> \<not> includesJ (mimetype f) ''spreadsheetml''
      then (st, Inl NotExcel)
      else
        (case readSheet st (path f) of
           None \<Rightarrow> (st, Inl Thrown)
         | Some json \<Rightarrow>
             (case autogenDraft ns uid f json (nextId st) of
                Inl why \<Rightarrow> (st, Inl why)
              | Inr c \<Rightarrow>
                  (case saveChart (spendId st) c of
                     None \<Rightarrow> (spendId st, Inl Thrown)
                   | Some st' \<Rightarrow> (st', Inr c)))))"

fun autogenLoop ::
  "(jsnum \<Rightarrow> string) \<Rightarrow> nat \<Rightarrow> uploadedFile list \<Rightarrow> store \<Rightarrow> chart list \<Rightarrow> store \<times> chart list" where
  "autogenLoop ns uid [] st createdCharts = (st, createdCharts)"
| "autogenLoop ns uid (f # fs) st createdCharts =
     (case autogenFile ns uid st f of
        (st', Inl why) \<Rightarrow> autogenLoop ns uid fs st' createdCharts
      | (st', Inr c) \<Rightarrow> autogenLoop ns uid fs st' (createdCharts @ [c]))"

record autogenResponse =
  status :: nat
  message :: string
  created :: nat
  details :: "(string \<times> nat) list"

definition autogen :: "(jsnum \<Rightarrow> string) \<Rightarrow> nat \<Rightarrow> store \<Rightarrow> store \<times> autogenResponse" where
  "autogen ns uid st =
     (let userFiles = filter (\<lambda>f. uploadedBy f = uid) (files st);
          (st', createdCharts) = autogenLoop ns uid userFiles st []
      in (st', \<lparr>status = 201, message = ''Auto-generated charts'',
                created = length createdCharts,
                details = map (\<lambda>c. (title c, cid c)) createdCharts\<rparr>))"

section \<open>\<^verbatim>\<open>POST /\<close>: manual creation\<close>

text \<open>The request body, as the client's form sends it; an empty string is a missing field.\<close>

record chartRequest =
  r_title :: string
  r_description :: "string option"
  r_chartType :: string
  r_sourceFile :: "nat option"
  r_xColumn :: string
  r_yColumn :: string

definition strictEq :: "jsval \<Rightarrow> jsval \<Rightarrow> bool" where
  "strictEq a b = (a = b \<and> a \<noteq> JNum NaN)"

fun indexOfFrom :: "nat \<Rightarrow> jsarray \<Rightarrow> jsval \<Rightarrow> nat option" where
  "indexOfFrom i [] v = None"
| "indexOfFrom i (slot # rest) v =
     (case slot of
        Some w \<Rightarrow> if strictEq w v then Some i else indexOfFrom (Suc i) rest v
      | None \<Rightarrow> indexOfFrom (Suc i) rest v)"

definition indexOf :: "jsarray \<Rightarrow> jsval \<Rightarrow> nat option" where
  "indexOf arr v = indexOfFrom 0 arr v"

definition MissingFields :: reject where
  "MissingFields = Reject 400 ''Missing required fields''"

definition FileNotFound :: reject where
  "FileNotFound = Reject 404 ''File not found or access denied''"

definition NotEnoughData :: reject where
  "NotEnoughData = Reject 400 ''File does not contain enough data''"

definition NoValidRows :: reject where
  "NoValidRows = Reject 400 ''File contains no valid data rows''"

definition ColumnNotFound :: reject where
  "ColumnNotFound = Reject 400 ''Selected columns not found in file''"

definition NoValidDataPoints :: reject where
  "NoValidDataPoints = Reject 400 ''No valid data points found with selected columns''"

definition CreateServerError :: reject where
  "CreateServerError = Reject 500 ''Server error during chart creation''"

definition createChart ::
  "(jsnum \<Rightarrow> string) \<Rightarrow> nat \<Rightarrow> store \<Rightarrow> chartRequest \<Rightarrow> store \<times> (reject + chart)" where
  "createChart ns uid st req =
     (if r_title req = [] \<or> r_chartType req = [] \<or> r_sourceFile req = None
         \<or> r_xColumn req = [] \<or> r_yColumn req = []
      then (st, Inl MissingFields)
      else
        (case find (\<lambda>f. Some (fid f) = r_sourceFile req) (files st) of
           None \<Rightarrow> (st, Inl FileNotFound)
         | Some f \<Rightarrow>
             if uploadedBy f \<noteq> uid then (st, Inl FileNotFound)
             else
               (case readSheet st (path f) of
                  None \<Rightarrow> (st, Inl CreateServerError)
                | Some json \<Rightarrow>
                    if length json < 2 then (st, Inl NotEnoughData)
                    else
                      let headers = hd json;
                          rows = nonEmptyRows json
                      in if length rows = 0 then (st, Inl NoValidRows)
                         else
                           (case (indexOf headers (JStr (r_xColumn req)),
                                  indexOf headers (JStr (r_yColumn req))) of
                              (Some xIdx, Some yIdx) \<Rightarrow>
                                let cleanData = cleanDataManual (r_chartType req) rows xIdx yIdx
                                in if length cleanData = 0 then (st, Inl NoValidDataPoints)
                                   else
                                     let c = \<lparr>cid = nextId st,
                                              title = trimJ (r_title req),
                                              description = r_description req,
                                              chartType = r_chartType req,
                                              chartConfig = manualConfig ns (r_chartType req)
                                                              headers yIdx cleanData,
                                              sourceFile = fid f,
                                              createdBy = uid,
                                              isPublic = False,
                                              tags = [JStr (r_xColumn req), JStr (r_yColumn req)]\<rparr>
                                     in (case saveChart (spendId st) c of
                                           None \<Rightarrow> (spendId st, Inl CreateServerError)
                                         | Some st' \<Rightarrow> (st', Inr c))
                            | _ \<Rightarrow> (st, Inl ColumnNotFound)))))"


section \<open>\<^verbatim>\<open>POST /upload\<close>\<close>

text \<open>
  The handler runs after the upload middleware has written the file to disk and filled
  \<^verbatim>\<open>req.file\<close>; \<open>rf_content\<close> is what the written file holds. The middleware's file filter
  (an \<^verbatim>\<open>.xls\<close>/\<^verbatim>\<open>.xlsx\<close> name, one of two spreadsheet media types) only narrows the
  requests that reach the handler.
\<close>

record reqFile =
  rf_filename :: string
  rf_originalname :: string
  rf_mimetype :: string
  rf_size :: nat
  rf_path :: string
  rf_content :: content

text \<open>The required-field validators of the file schema.\<close>

definition validFile :: "uploadedFile \<Rightarrow> bool" where
  "validFile f = (filename f \<noteq> [] \<and> originalName f \<noteq> [] \<and> mimetype f \<noteq> [] \<and> path f \<noteq> [])"

text \<open>Lines 97 to 145: the chart built for one chart type.\<close>

definition uploadDraft ::
  "(jsnum \<Rightarrow> string) \<Rightarrow> nat \<Rightarrow> uploadedFile \<Rightarrow> jsarray \<Rightarrow> jsarray list \<Rightarrow> nat \<Rightarrow> nat
     \<Rightarrow> string \<Rightarrow> nat \<Rightarrow> chart" where
  "uploadDraft ns uid f headers rows xIdx yIdx ct newId =
     \<lparr>cid = newId,
      title = trimJ (originalName f @ '' - '' @ js_String ns (cellAt headers yIdx) @ '' vs ''
                     @ js_String ns (cellAt headers xIdx) @ '' ('' @ ct @ '')''),
      description = Some (''Auto-generated '' @ ct @ '' chart from '' @ originalName f),
      chartType = ct,
      chartConfig =
        (if ct = ''pie'' then
           \<lparr>labels = map (\<lambda>r. cellAt r xIdx) rows,
            datasets = [\<lparr>label = cellAt headers yIdx, data = map (\<lambda>r. cellAt r yIdx) rows\<rparr>]\<rparr>
         else
           \<lparr>labels = map (\<lambda>r. cellAt r xIdx) rows,
            datasets = [\<lparr>label = cellAt headers yIdx, data = map (\<lambda>r. cellAt r yIdx) rows\<rparr>]\<rparr>),
      sourceFile = fid f,
      createdBy = uid,
      isPublic = False,
      tags = [cellAt headers xIdx, cellAt headers yIdx]\<rparr>"

text \<open>
  The loop over \<^verbatim>\<open>['bar', 'line', 'pie']\<close>. A \<^verbatim>\<open>save()\<close> that throws leaves the loop: the
  \<^verbatim>\<open>catch\<close> is outside it.
\<close>

fun uploadLoop ::
  "(jsnum \<Rightarrow> string) \<Rightarrow> nat \<Rightarrow> uploadedFile \<Rightarrow> jsarray \<Rightarrow> jsarray list \<Rightarrow> nat \<Rightarrow> nat
     \<Rightarrow> string list \<Rightarrow> store \<Rightarrow> store" where
  "uploadLoop ns uid f headers rows xIdx yIdx [] st = st"
| "uploadLoop ns uid f headers rows xIdx yIdx (ct # rest) st =
     (if find (\<lambda>c. sourceFile c = fid f \<and> createdBy c = uid \<and> chartType c = ct) (charts st)
           \<noteq> None
      then uploadLoop ns uid f headers rows xIdx yIdx rest st
      else
        (case saveChart (spendId st) (uploadDraft ns uid f headers rows xIdx yIdx ct (nextId st)) of
           None \<Rightarrow> spendId st
         | Some st' \<Rightarrow> uploadLoop ns uid f headers rows xIdx yIdx rest st'))"

definition uploadCharts :: "(jsnum \<Rightarrow> string) \<Rightarrow> nat \<Rightarrow> uploadedFile \<Rightarrow> store \<Rightarrow> store" where
  "uploadCharts ns uid f st =
     (case readSheet st (path f) of
        None \<Rightarrow> st
      | Some json \<Rightarrow>
          if length json \<ge> 2 then
            let headers = hd json;
                rows = tl json;
                numericIndices = filter (\<lambda>i. isNumber (cellAt (hd rows) i)) [0..<length headers]
            in if length numericIndices \<ge> 2
               then uploadLoop ns uid f headers rows (numericIndices ! 0) (numericIndices ! 1)
                      [''bar'', ''line'', ''pie''] st
               else st
          else st)"

definition upload ::
  "(jsnum \<Rightarrow> string) \<Rightarrow> nat \<Rightarrow> store \<Rightarrow> reqFile option \<Rightarrow> store \<times> (reject + uploadedFile)" where
  "upload ns uid st rq =
     (case rq of
        None \<Rightarrow> (st, Inl (Reject 400 ''No file uploaded''))
      | Some rf \<Rightarrow>
          let st0 = st\<lparr>disk := (disk st)(rf_path rf := Some (rf_content rf))\<rparr>;
              f = \<lparr>fid = nextId st0, filename = rf_filename rf, originalName = rf_originalname rf,
                   mimetype = rf_mimetype rf, fsize = rf_size rf, path = rf_path rf,
                   uploadedBy = uid\<rparr>;
              st1 = spendId st0
          in if \<not> validFile f then (st1, Inl (Reject 500 ''Server error during file upload''))
             else (uploadCharts ns uid f (st1\<lparr>files := files st1 @ [f]\<rparr>), Inr f))"

section \<open>\<^verbatim>\<open>DELETE /:id\<close> of the file routes\<close>

fun deleteFirst :: "('a \<Rightarrow> bool) \<Rightarrow> 'a list \<Rightarrow> 'a list" where
  "deleteFirst P [] = []"
| "deleteFirst P (x # xs) = (if P x then xs else x # deleteFirst P xs)"

definition deleteFile :: "nat \<Rightarrow> store \<Rightarrow> nat \<Rightarrow> store \<times> (reject + string)" where
  "deleteFile uid st ident =
     (case find (\<lambda>f. fid f = ident) (files st) of
        None \<Rightarrow> (st, Inl FileNotFound)
      | Some f \<Rightarrow>
          if uploadedBy f \<noteq> uid then (st, Inl FileNotFound)
          else
            (st\<lparr>disk := (disk st)(path f := None),
                files := deleteFirst (\<lambda>g. fid g = ident) (files st),
                charts := filter (\<lambda>c. sourceFile c \<noteq> ident) (charts st)\<rparr>,
             Inr ''File deleted successfully''))"


section \<open>Number printing for the worked examples\<close>

text \<open>
  \<^verbatim>\<open>Number::toString\<close> on the exact decimals of this model: the digits \<open>s\<close> without
  trailing zeros and the position \<open>n\<close> of the decimal point, laid out as the language
  prescribes (plain digits up to \<open>10^21\<close>, a leading \<open>0.\<close> down to \<open>10^-6\<close>, exponent form
  beyond). A rational with no finite decimal expansion is not a value the program can
  hold; it is cut after as many digits as its denominator counts.
\<close>

function showNat :: "nat \<Rightarrow> string" where
  "showNat n =
     (if n < 10 then [char_of (48 + n)] else showNat (n div 10) @ [char_of (48 + n mod 10)])"
  by pat_completeness auto
termination
  by (relation "measure id") auto

declare showNat.simps [simp del]

fun fracDigits :: "nat \<Rightarrow> rat \<Rightarrow> nat" where
  "fracDigits 0 q = 0"
| "fracDigits (Suc fuel) q = (if of_int \<lfloor>q\<rfloor> = q then 0 else Suc (fracDigits fuel (q * 10)))"

definition stripZeros :: "string \<Rightarrow> string" where
  "stripZeros ds = rev (dropWhile (\<lambda>c. c = CHR ''0'') (rev ds))"

definition showPositive :: "rat \<Rightarrow> string" where
  "showPositive q =
     (let m = fracDigits (nat (snd (quotient_of q))) q;
          ds = showNat (nat \<lfloor>q * 10 ^ m\<rfloor>);
          n = int (length ds) - int m;
          s = stripZeros ds;
          k = int (length s)
      in if k \<le> n \<and> n \<le> 21 then s @ replicate (nat (n - k)) (CHR ''0'')
         else if 0 < n \<and> n \<le> 21 then take (nat n) s @ ''.'' @ drop (nat n) s
         else if - 6 < n \<and> n \<le> 0 then ''0.'' @ replicate (nat (- n)) (CHR ''0'') @ s
         else (if k = 1 then s else take 1 s @ ''.'' @ drop 1 s)
              @ ''e'' @ (if n - 1 < 0 then ''-'' else ''+'') @ showNat (nat \<bar>n - 1\<bar>))"

fun numberToString :: "jsnum \<Rightarrow> string" where
  "numberToString NaN = ''NaN''"
| "numberToString PosInf = ''Infinity''"
| "numberToString NegInf = ''-Infinity''"
| "numberToString (Fin q) =
     (if q = 0 then ''0'' else if q < 0 then ''-'' @ showPositive (- q) else showPositive q)"


section \<open>Notions used in the statements\<close>

text \<open>The labels and the first dataset of a configuration have the same length.\<close>

definition labelsMatchData :: "config \<Rightarrow> bool" where
  "labelsMatchData cfg =
     (case datasets cfg of [] \<Rightarrow> False | d # _ \<Rightarrow> length (labels cfg) = length (data d))"

definition chartKey :: "chart \<Rightarrow> nat \<times> nat \<times> string" where
  "chartKey c = (sourceFile c, createdBy c, chartType c)"

text \<open>The pair a row is turned into, and the test a pair must pass to be kept.\<close>

definition rowPoint :: "nat \<Rightarrow> nat \<Rightarrow> jsarray \<Rightarrow> point" where
  "rowPoint xi yi row = (cellAt row xi, orZero (js_Number (cellAt row yi)))"

definition validPoint :: "point \<Rightarrow> bool" where
  "validPoint item =
     (fst item \<noteq> JNull \<and> fst item \<noteq> JUndefined \<and> fst item \<noteq> JStr [] \<and> \<not> js_isNaN (snd item))"

text \<open>The classifier in the words of the specification.\<close>

definition parsesAsNumber :: "jsval \<Rightarrow> bool" where
  "parsesAsNumber v = (\<not> js_isNaN (js_Number v))"

definition nonNumericString :: "jsval \<Rightarrow> bool" where
  "nonNumericString v = (isString v \<and> js_isNaN (js_Number v))"

definition spec_classify :: "jsval list \<Rightarrow> coltype" where
  "spec_classify cells =
     (let kept = filter (\<lambda>c. c \<noteq> JNull \<and> c \<noteq> JUndefined \<and> c \<noteq> JStr []) cells
      in if kept = [] then Empty
         else if length (filter parsesAsNumber kept) > length (filter nonNumericString kept)
         then Numeric else Categorical)"








text \<open>
  Two tests on a file of the bulk loop that do not look at the stored charts: building its
  chart fails before a chart is constructed (the sheet cannot be read, or has too few rows,
  no usable column pair or no valid data point); and building and saving its chart would
  succeed.
\<close>

definition perFileFailure :: "(jsnum \<Rightarrow> string) \<Rightarrow> nat \<Rightarrow> store \<Rightarrow> uploadedFile \<Rightarrow> bool" where
  "perFileFailure ns uid st f =
     (case readSheet st (path f) of
        None \<Rightarrow> True
      | Some json \<Rightarrow> (case autogenDraft ns uid f json 0 of Inl why \<Rightarrow> True | Inr c \<Rightarrow> False))"

definition fileVerdict :: "(jsnum \<Rightarrow> string) \<Rightarrow> nat \<Rightarrow> store \<Rightarrow> uploadedFile \<Rightarrow> bool" where
  "fileVerdict ns uid st f =
     ((includesJ (mimetype f) ''excel'' \<or> includesJ (mimetype f) ''spreadsheetml'')
      \<and> (case readSheet st (path f) of
           None \<Rightarrow> False
         | Some json \<Rightarrow>
             (case autogenDraft ns uid f json 0 of Inl why \<Rightarrow> False | Inr c \<Rightarrow> validChart c)))"

section \<open>Worked examples\<close>

definition emptyStore :: store where
  "emptyStore = \<lparr>files = [], charts = [], disk = (\<lambda>p. None), nextId = 0\<rparr>"

definition salesSheet :: "jsarray list" where
  "salesSheet =
     [[Some (JStr ''City''), Some (JStr ''Sales'')],
      [Some (JStr ''NY''), Some (JNum (Fin 100))],
      [Some (JStr ''LA''), Some (JNum (Fin 200))],
      [Some (JStr ''NY''), Some (JNum (Fin 50))]]"

definition xlsxType :: string where
  "xlsxType = ''application/vnd.openxmlformats-officedocument.spreadsheetml.sheet''"

definition salesUpload :: reqFile where
  "salesUpload =
     \<lparr>rf_filename = ''excel-1.xlsx'', rf_originalname = ''sales.xlsx'', rf_mimetype = xlsxType,
      rf_size = 9000, rf_path = ''uploads/excel-1.xlsx'', rf_content = Workbook salesSheet\<rparr>"

text \<open>User 7 owns one file, the sales sheet, stored under identifier 0.\<close>

definition salesFile :: uploadedFile where
  "salesFile =
     \<lparr>fid = 0, filename = ''excel-1.xlsx'', originalName = ''sales.xlsx'', mimetype = xlsxType,
      fsize = 9000, path = ''uploads/excel-1.xlsx'', uploadedBy = 7\<rparr>"

definition salesStore :: store where
  "salesStore =
     \<lparr>files = [salesFile], charts = [],
      disk = (\<lambda>p. if p = ''uploads/excel-1.xlsx'' then Some (Workbook salesSheet) else None),
      nextId = 1\<rparr>"

text \<open>A sheet whose second column holds text that is no number.\<close>

definition scoreSheet :: "jsarray list" where
  "scoreSheet =
     [[Some (JStr ''Name''), Some (JStr ''Score'')],
      [Some (JStr ''A''), Some (JStr ''abc'')]]"

definition scoreFile :: uploadedFile where
  "scoreFile =
     \<lparr>fid = 0, filename = ''excel-2.xlsx'', originalName = ''scores.xlsx'', mimetype = xlsxType,
      fsize = 5000, path = ''uploads/excel-2.xlsx'', uploadedBy = 7\<rparr>"

definition scoreStore :: store where
  "scoreStore =
     \<lparr>files = [scoreFile], charts = [],
      disk = (\<lambda>p. if p = ''uploads/excel-2.xlsx'' then Some (Workbook scoreSheet) else None),
      nextId = 1\<rparr>"

definition scoreRequest :: chartRequest where
  "scoreRequest =
     \<lparr>r_title = ''Scores'', r_description = None, r_chartType = ''bar'',
      r_sourceFile = Some 0, r_xColumn = ''Name'', r_yColumn = ''Score''\<rparr>"

text \<open>Two files of user 7 and a chart on each.\<close>

definition otherFile :: uploadedFile where
  "otherFile =
     \<lparr>fid = 1, filename = ''excel-2.xlsx'', originalName = ''scores.xlsx'', mimetype = xlsxType,
      fsize = 5000, path = ''uploads/excel-2.xlsx'', uploadedBy = 7\<rparr>"

definition chartOn :: "nat \<Rightarrow> nat \<Rightarrow> chart" where
  "chartOn ident src =
     \<lparr>cid = ident, title = ''Chart'', description = None, chartType = ''bar'',
      chartConfig = \<lparr>labels = [JStr ''NY''],
                     datasets = [\<lparr>label = JStr ''Sales'', data = [JNum (Fin 100)]\<rparr>]\<rparr>,
      sourceFile = src, createdBy = 7, isPublic = False, tags = []\<rparr>"

definition twoFileStore :: store where
  "twoFileStore =
     \<lparr>files = [salesFile, otherFile], charts = [chartOn 2 0, chartOn 3 1, chartOn 4 0],
      disk = (\<lambda>p. if p = ''uploads/excel-1.xlsx'' then Some (Workbook salesSheet)
                  else if p = ''uploads/excel-2.xlsx'' then Some (Workbook scoreSheet)
                  else None),
      nextId = 5\<rparr>"

definition salesRequest :: chartRequest where
  "salesRequest =
     \<lparr>r_title = ''Sales by city'', r_description = None, r_chartType = ''bar'',
      r_sourceFile = Some 0, r_xColumn = ''City'', r_yColumn = ''Sales''\<rparr>"

text \<open>A sheet with two numeric columns, and its upload.\<close>

definition pairSheet :: "jsarray list" where
  "pairSheet =
     [[Some (JStr ''Month''), Some (JStr ''Units'')],
      [Some (JNum (Fin 1)), Some (JNum (Fin 10))],
      [Some (JNum (Fin 1)), Some (JNum (Fin 30))]]"

definition pairUpload :: reqFile where
  "pairUpload =
     \<lparr>rf_filename = ''excel-3.xlsx'', rf_originalname = ''units.xlsx'', rf_mimetype = xlsxType,
      rf_size = 7000, rf_path = ''uploads/excel-3.xlsx'', rf_content = Workbook pairSheet\<rparr>"

text \<open>A request that names a column the sales sheet does not have.\<close>

definition regionRequest :: chartRequest where
  "regionRequest =
     \<lparr>r_title = ''Sales by region'', r_description = None, r_chartType = ''bar'',
      r_sourceFile = Some 0, r_xColumn = ''Region'', r_yColumn = ''Sales''\<rparr>"

text \<open>A file whose sheet has a header row and nothing else.\<close>

definition headerSheet :: "jsarray list" where
  "headerSheet = [[Some (JStr ''City''), Some (JStr ''Sales'')]]"

definition headerStore :: store where
  "headerStore =
     \<lparr>files = [salesFile], charts = [],
      disk = (\<lambda>p. if p = ''uploads/excel-1.xlsx'' then Some (Workbook headerSheet) else None),
      nextId = 1\<rparr>"

text \<open>A data row with the label \<open>A\<close> and the value \<open>1\<close>.\<close>

definition rowA :: jsarray where
  "rowA = [Some (JStr ''A''), Some (JNum (Fin 1))]"



text \<open>User 7 owns a file that is no longer on disk, and the sales sheet after it.\<close>

definition brokenFile :: uploadedFile where
  "brokenFile =
     \<lparr>fid = 1, filename = ''excel-9.xlsx'', originalName = ''lost.xlsx'', mimetype = xlsxType,
      fsize = 100, path = ''uploads/excel-9.xlsx'', uploadedBy = 7\<rparr>"

definition mixedStore :: store where
  "mixedStore =
     \<lparr>files = [brokenFile, salesFile], charts = [],
      disk = (\<lambda>p. if p = ''uploads/excel-1.xlsx'' then Some (Workbook salesSheet) else None),
      nextId = 2\<rparr>"

section \<open>Verified properties\<close>


subsection \<open>Deleting a file\<close>

text \<open>
  C9. Deleting an uploaded file that exists and belongs to the caller succeeds; afterwards
  the stored charts are exactly the former charts whose \<open>sourceFile\<close> is another file, in
  their former order: every chart of the deleted file is gone and every other chart is
  kept unchanged.
\<close>

theorem deleteFile_cascade:
  assumes "find (\<lambda>f. fid f = ident) (files st) = Some f" and "uploadedBy f = uid"
  shows "\<exists>st'. deleteFile uid st ident = (st', Inr ''File deleted successfully'')
           \<and> charts st' = filter (\<lambda>c. sourceFile c \<noteq> ident) (charts st)
           \<and> (\<forall>c \<in> set (charts st'). sourceFile c \<noteq> ident)
           \<and> (\<forall>c \<in> set (charts st). sourceFile c \<noteq> ident \<longrightarrow> c \<in> set (charts st'))"
  using assms by (simp add: deleteFile_def)

theorem deleteFile_cascade_witness:
  "find (\<lambda>f. fid f = 0) (files twoFileStore) = Some salesFile \<and> uploadedBy salesFile = 7
   \<and> charts (fst (deleteFile 7 twoFileStore 0)) = [chartOn 3 1]"
proof -
  have h1: "find (\<lambda>f. fid f = 0) (files twoFileStore) = Some salesFile"
    by (simp add: twoFileStore_def salesFile_def)
  have h2: "uploadedBy salesFile = 7"
    by (simp add: salesFile_def)
  from deleteFile_cascade [OF h1 h2]
  have "charts (fst (deleteFile 7 twoFileStore 0))
          = filter (\<lambda>c. sourceFile c \<noteq> 0) (charts twoFileStore)"
    by auto
  then have "charts (fst (deleteFile 7 twoFileStore 0)) = [chartOn 3 1]"
    by (simp add: twoFileStore_def chartOn_def)
  with h1 h2 show ?thesis by simp
qed

subsection \<open>Data cleaning and a Y cell that is no number\<close>

text \<open>
  C1. The pair of a row is \<open>(x, Number(y) || 0)\<close>, so a Y cell that does not parse has
  become \<open>0\<close> before the filter looks at it, and the filter's test \<open>!isNaN(item.y)\<close> never
  fails. On the sheet with the single data row \<open>("A", "abc")\<close> both cleaning pipelines keep
  the row with \<open>y = 0\<close>, although \<open>Number("abc")\<close> is \<open>NaN\<close>, and manual creation stores a
  bar chart with the label \<open>A\<close> and the data point \<open>0\<close>.
\<close>

theorem cleaning_keeps_unparsable_y:
  "cleanDataManual ''bar'' (nonEmptyRows scoreSheet) 0 1 = [(JStr ''A'', Fin 0)]
   \<and> cleanDataAuto (nonEmptyRows scoreSheet) 0 1 = [(JStr ''A'', Fin 0)]
   \<and> js_Number (JStr ''abc'') = NaN
   \<and> map (\<lambda>c. (labels (chartConfig c), map data (datasets (chartConfig c))))
         (charts (fst (createChart numberToString 7 scoreStore scoreRequest)))
       = [([JStr ''A''], [[JNum (Fin 0)]])]"
  by (simp add: cleanDataManual_def cleanDataAuto_def nonEmptyRows_def scoreSheet_def cellAt_def
      orZero_def js_isNaN_def stringToNumber_def trimJ_def isWhiteSpace_def unsignedDecimal_def
      isDigit_def digitOf_def createChart_def scoreStore_def scoreRequest_def scoreFile_def
      readSheet_def indexOf_def strictEq_def manualConfig_def saveChart_def spendId_def
      validChart_def chartTypeEnum_def Let_def)

subsection \<open>Column classification\<close>

lemmas js_eval =
  cellAt_def orZero_def js_isNaN_def stringToNumber_def trimJ_def isWhiteSpace_def
  unsignedDecimal_def isDigit_def digitOf_def natLit_def exponentPart_def pow10_def radixLit_def
  isNumber_def isString_def isBlank_def

lemma columnAnalysis_nth:
  assumes "i < length headers"
  shows "columnAnalysis headers rows ! i = map_option (analyseColumn rows i) (headers ! i)"
  using assms by (simp add: columnAnalysis_def nth_enumerate_eq)

lemma numeric_test_eq:
  assumes "v \<noteq> JNum NaN"
  shows "(isNumber v \<or> \<not> js_isNaN (js_Number v)) = parsesAsNumber v"
  using assms by (cases v) (auto simp: isNumber_def parsesAsNumber_def js_isNaN_def)

lemma analyseColumn_ctype:
  assumes "JNum NaN \<notin> set (map (\<lambda>row. cellAt row i) rows)"
  shows "ctype (analyseColumn rows i h) = spec_classify (map (\<lambda>row. cellAt row i) rows)"
proof -
  let ?cells = "map (\<lambda>row. cellAt row i) rows"
  have vals: "columnValues rows i = filter (\<lambda>c. c \<noteq> JNull \<and> c \<noteq> JUndefined \<and> c \<noteq> JStr []) ?cells"
    by (simp add: columnValues_def isBlank_def)
  have nonan: "\<forall>v \<in> set (columnValues rows i). v \<noteq> JNum NaN"
    using assms by (auto simp: columnValues_def image_iff)
  have nc: "filter (\<lambda>val. isNumber val \<or> \<not> js_isNaN (js_Number val)) (columnValues rows i)
              = filter parsesAsNumber (columnValues rows i)"
    by (rule filter_cong) (use nonan numeric_test_eq in auto)
  have sc: "filter (\<lambda>val. isString val \<and> js_isNaN (js_Number val)) (columnValues rows i)
              = filter nonNumericString (columnValues rows i)"
    by (rule filter_cong) (simp_all add: nonNumericString_def)
  have code: "ctype (analyseColumn rows i h)
      = (if columnValues rows i = [] then Empty
         else if length (filter parsesAsNumber (columnValues rows i))
                   > length (filter nonNumericString (columnValues rows i))
         then Numeric else Categorical)"
    by (simp add: analyseColumn_def Let_def nc sc)
  have spec: "spec_classify ?cells
      = (if columnValues rows i = [] then Empty
         else if length (filter parsesAsNumber (columnValues rows i))
                   > length (filter nonNumericString (columnValues rows i))
         then Numeric else Categorical)"
    unfolding spec_classify_def Let_def vals [symmetric] ..
  show ?thesis
    by (simp only: code spec)
qed

lemma spec_classify_examples:
  "spec_classify [JStr ''12'', JStr ''abc''] = Categorical"
  "spec_classify [JStr ''12'', JStr ''abc'', JNum (Fin 3)] = Numeric"
  "spec_classify [JNull, JStr '''', JUndefined] = Empty"
  by (simp_all add: spec_classify_def parsesAsNumber_def nonNumericString_def js_eval)

text \<open>
  C2. For every column of the header row (a slot that holds a header; \<^verbatim>\<open>map\<close> passes over a
  hole), the classifier's verdict is the one the specification describes: the cells that are
  \<open>null\<close>, \<open>undefined\<close> or the empty string are dropped; with none left the column is
  \<open>Empty\<close>; otherwise it is \<open>Numeric\<close> exactly when the cells that parse as a number strictly
  outnumber the strings that do not, and \<open>Categorical\<close> otherwise, a tie included. The
  sheet is one the reader produces: no cell holds the number \<open>NaN\<close>.
\<close>

theorem columnAnalysis_classifies:
  assumes "i < length headers" and "headers ! i = Some h"
    and "JNum NaN \<notin> set (map (\<lambda>row. cellAt row i) rows)"
  shows "\<exists>col. columnAnalysis headers rows ! i = Some col \<and> index col = i \<and> header col = h
           \<and> ctype col = spec_classify (map (\<lambda>row. cellAt row i) rows)"
proof -
  have "columnAnalysis headers rows ! i = Some (analyseColumn rows i h)"
    using assms(1,2) by (simp add: columnAnalysis_nth)
  moreover have "index (analyseColumn rows i h) = i \<and> header (analyseColumn rows i h) = h"
    by (simp add: analyseColumn_def Let_def)
  ultimately show ?thesis
    using analyseColumn_ctype [OF assms(3)] by simp
qed

theorem columnAnalysis_classifies_witness:
  "(1::nat) < length (hd salesSheet) \<and> hd salesSheet ! 1 = Some (JStr ''Sales'')
   \<and> JNum NaN \<notin> set (map (\<lambda>row. cellAt row 1) (tl salesSheet))
   \<and> (\<exists>col. columnAnalysis (hd salesSheet) (tl salesSheet) ! 1 = Some col \<and> index col = 1
          \<and> header col = JStr ''Sales'' \<and> ctype col = Numeric)"
proof -
  have h1: "(1::nat) < length (hd salesSheet)" by (simp add: salesSheet_def)
  have h2: "hd salesSheet ! 1 = Some (JStr ''Sales'')" by (simp add: salesSheet_def)
  have h3: "JNum NaN \<notin> set (map (\<lambda>row. cellAt row 1) (tl salesSheet))"
    by (simp add: salesSheet_def cellAt_def)
  have v: "spec_classify (map (\<lambda>row. cellAt row 1) (tl salesSheet)) = Numeric"
    by (simp add: spec_classify_def salesSheet_def cellAt_def parsesAsNumber_def
        nonNumericString_def js_isNaN_def isString_def)
  from columnAnalysis_classifies [OF h1 h2 h3] v h1 h2 h3 show ?thesis by simp
qed

subsection \<open>What the creation paths add to the store\<close>

lemma manualConfig_match: "labelsMatchData (manualConfig ns ct headers yIdx cd)"
  by (simp add: manualConfig_def labelsMatchData_def Object_keys_def Object_values_def Let_def)

lemma autogenDraft_Inr:
  assumes "autogenDraft ns uid f json newId = Inr c"
  shows "sourceFile c = fid f \<and> createdBy c = uid \<and> chartType c = ''bar'' \<and> cid c = newId
         \<and> labelsMatchData (chartConfig c)"
  using assms
  by (auto simp: autogenDraft_def autoConfig_def labelsMatchData_def Let_def split: if_splits)

lemma uploadDraft_match: "labelsMatchData (chartConfig (uploadDraft ns uid f headers rows xi yi ct newId))"
  by (simp add: uploadDraft_def labelsMatchData_def)

lemma autogenFile_frame:
  assumes "autogenFile ns uid st f = (st', r)"
  shows "files st' = files st \<and> disk st' = disk st"
  using assms
  by (auto simp: autogenFile_def saveChart_def spendId_def split: option.splits sum.splits if_splits)

lemma autogenFile_Inl:
  assumes "autogenFile ns uid st f = (st', Inl why)"
  shows "charts st' = charts st"
  using assms
  by (auto simp: autogenFile_def saveChart_def spendId_def split: option.splits sum.splits if_splits)

lemma autogenFile_Inr:
  assumes "autogenFile ns uid st f = (st', Inr c)"
  shows "charts st' = charts st @ [c]
         \<and> find (\<lambda>c. sourceFile c = fid f \<and> createdBy c = uid) (charts st) = None
         \<and> (\<exists>json. readSheet st (path f) = Some json
                \<and> autogenDraft ns uid f json (nextId st) = Inr c)
         \<and> validChart c"
  using assms
  by (auto simp: autogenFile_def saveChart_def spendId_def split: option.splits sum.splits if_splits)

lemma autogenLoop_charts:
  assumes "autogenLoop ns uid fs st acc = (st', acc')"
  shows "\<exists>new. acc' = acc @ new \<and> charts st' = charts st @ new
           \<and> files st' = files st \<and> disk st' = disk st
           \<and> (\<forall>c \<in> set new. createdBy c = uid \<and> chartType c = ''bar''
                  \<and> labelsMatchData (chartConfig c) \<and> validChart c
                  \<and> sourceFile c \<in> fid ` set fs)"
  using assms
proof (induction fs arbitrary: st acc)
  case Nil
  then show ?case by simp
next
  case (Cons f fs)
  obtain st1 r where step: "autogenFile ns uid st f = (st1, r)"
    by (cases "autogenFile ns uid st f")
  note frame = autogenFile_frame [OF step]
  show ?case
  proof (cases r)
    case (Inl why)
    with step Cons.prems have "autogenLoop ns uid fs st1 acc = (st', acc')" by simp
    from Cons.IH [OF this] obtain new where
      "acc' = acc @ new" "charts st' = charts st1 @ new" "files st' = files st1"
      "disk st' = disk st1"
      "\<forall>c \<in> set new. createdBy c = uid \<and> chartType c = ''bar''
           \<and> labelsMatchData (chartConfig c) \<and> validChart c \<and> sourceFile c \<in> fid ` set fs"
      by blast
    moreover have "charts st1 = charts st"
      using autogenFile_Inl step Inl by blast
    ultimately show ?thesis using frame
      by (intro exI [of _ new]) auto
  next
    case (Inr c)
    with step Cons.prems have "autogenLoop ns uid fs st1 (acc @ [c]) = (st', acc')" by simp
    from Cons.IH [OF this] obtain new where new:
      "acc' = (acc @ [c]) @ new" "charts st' = charts st1 @ new" "files st' = files st1"
      "disk st' = disk st1"
      "\<forall>c \<in> set new. createdBy c = uid \<and> chartType c = ''bar''
           \<and> labelsMatchData (chartConfig c) \<and> validChart c \<and> sourceFile c \<in> fid ` set fs"
      by blast
    from autogenFile_Inr step Inr obtain json where c:
      "charts st1 = charts st @ [c]" "autogenDraft ns uid f json (nextId st) = Inr c" "validChart c"
      by blast
    note d = autogenDraft_Inr [OF c(2)]
    have "acc' = acc @ (c # new)" "charts st' = charts st @ (c # new)"
      using new c by simp_all
    moreover have "\<forall>c \<in> set (c # new). createdBy c = uid \<and> chartType c = ''bar''
           \<and> labelsMatchData (chartConfig c) \<and> validChart c \<and> sourceFile c \<in> fid ` set (f # fs)"
      using new(5) d c(3) by auto
    ultimately show ?thesis using frame new(3,4)
      by (intro exI [of _ "c # new"]) simp
  qed
qed

lemma uploadLoop_charts:
  "\<exists>new. charts (uploadLoop ns uid f headers rows xi yi cts st) = charts st @ new
         \<and> files (uploadLoop ns uid f headers rows xi yi cts st) = files st
         \<and> (\<forall>c \<in> set new. labelsMatchData (chartConfig c) \<and> sourceFile c = fid f
                \<and> createdBy c = uid \<and> chartType c \<in> set cts)"
proof (induction cts arbitrary: st)
  case Nil
  then show ?case by simp
next
  case (Cons ct cts)
  let ?d = "uploadDraft ns uid f headers rows xi yi ct (nextId st)"
  show ?case
  proof (cases "find (\<lambda>c. sourceFile c = fid f \<and> createdBy c = uid \<and> chartType c = ct) (charts st) \<noteq> None")
    case True
    then show ?thesis using Cons.IH [of st] by auto
  next
    case False
    show ?thesis
    proof (cases "validChart ?d")
      case True
      let ?st1 = "(spendId st)\<lparr>charts := charts (spendId st) @ [?d]\<rparr>"
      from Cons.IH [of ?st1] obtain new where new:
        "charts (uploadLoop ns uid f headers rows xi yi cts ?st1) = charts ?st1 @ new"
        "files (uploadLoop ns uid f headers rows xi yi cts ?st1) = files ?st1"
        "\<forall>c \<in> set new. labelsMatchData (chartConfig c) \<and> sourceFile c = fid f
                \<and> createdBy c = uid \<and> chartType c \<in> set cts"
        by blast
      have eq: "uploadLoop ns uid f headers rows xi yi (ct # cts) st
                  = uploadLoop ns uid f headers rows xi yi cts ?st1"
        using False True by (simp add: saveChart_def)
      have "charts (uploadLoop ns uid f headers rows xi yi (ct # cts) st) = charts st @ (?d # new)"
        using new(1) eq by (simp add: spendId_def)
      moreover have "\<forall>c \<in> set (?d # new). labelsMatchData (chartConfig c) \<and> sourceFile c = fid f
                \<and> createdBy c = uid \<and> chartType c \<in> set (ct # cts)"
        using new(3) uploadDraft_match by (auto simp: uploadDraft_def)
      moreover have "files (uploadLoop ns uid f headers rows xi yi (ct # cts) st) = files st"
        using new(2) eq by (simp add: spendId_def)
      ultimately show ?thesis
        by (intro exI [of _ "?d # new"]) simp
    next
      case False2: False
      have "uploadLoop ns uid f headers rows xi yi (ct # cts) st = spendId st"
        using False False2 by (simp add: saveChart_def)
      then show ?thesis by (simp add: spendId_def)
    qed
  qed
qed


lemma createChart_charts:
  "charts (fst (createChart ns uid st req)) = charts st
   \<or> (\<exists>c. charts (fst (createChart ns uid st req)) = charts st @ [c]
          \<and> snd (createChart ns uid st req) = Inr c
          \<and> labelsMatchData (chartConfig c) \<and> validChart c)"
  by (auto simp: createChart_def saveChart_def spendId_def manualConfig_match Let_def
      split: option.splits if_splits)

lemma autogen_charts:
  "\<exists>new. charts (fst (autogen ns uid st)) = charts st @ new
     \<and> files (fst (autogen ns uid st)) = files st \<and> disk (fst (autogen ns uid st)) = disk st
     \<and> details (snd (autogen ns uid st)) = map (\<lambda>c. (title c, cid c)) new
     \<and> created (snd (autogen ns uid st)) = length new
     \<and> status (snd (autogen ns uid st)) = 201
     \<and> (\<forall>c \<in> set new. createdBy c = uid \<and> chartType c = ''bar''
            \<and> labelsMatchData (chartConfig c) \<and> validChart c)"
proof -
  obtain st' acc' where loop:
    "autogenLoop ns uid (filter (\<lambda>f. uploadedBy f = uid) (files st)) st [] = (st', acc')"
    by (cases "autogenLoop ns uid (filter (\<lambda>f. uploadedBy f = uid) (files st)) st []")
  from autogenLoop_charts [OF loop] obtain new where new:
    "acc' = [] @ new" "charts st' = charts st @ new" "files st' = files st" "disk st' = disk st"
    "\<forall>c \<in> set new. createdBy c = uid \<and> chartType c = ''bar''
        \<and> labelsMatchData (chartConfig c) \<and> validChart c
        \<and> sourceFile c \<in> fid ` set (filter (\<lambda>f. uploadedBy f = uid) (files st))"
    by blast
  have "autogen ns uid st = (st', \<lparr>status = 201, message = ''Auto-generated charts'',
          created = length acc', details = map (\<lambda>c. (title c, cid c)) acc'\<rparr>)"
    by (simp add: autogen_def loop)
  then show ?thesis using new
    by (intro exI [of _ new]) simp
qed

lemma uploadCharts_charts:
  "\<exists>new. charts (uploadCharts ns uid f st) = charts st @ new
     \<and> files (uploadCharts ns uid f st) = files st
     \<and> (\<forall>c \<in> set new. labelsMatchData (chartConfig c) \<and> sourceFile c = fid f
            \<and> createdBy c = uid)"
proof (cases "readSheet st (path f)")
  case None
  then show ?thesis by (simp add: uploadCharts_def)
next
  case (Some json)
  let ?ni = "filter (\<lambda>i. isNumber (cellAt (hd (tl json)) i)) [0..<length (hd json)]"
  show ?thesis
  proof (cases "2 \<le> length json \<and> 2 \<le> length ?ni")
    case True
    then have eq: "uploadCharts ns uid f st
        = uploadLoop ns uid f (hd json) (tl json) (?ni ! 0) (?ni ! 1) [''bar'', ''line'', ''pie''] st"
      using Some by (simp add: uploadCharts_def Let_def)
    from uploadLoop_charts [of ns uid f "hd json" "tl json" "?ni ! 0" "?ni ! 1"
        "[''bar'', ''line'', ''pie'']" st]
    show ?thesis unfolding eq by blast
  next
    case False
    then have "uploadCharts ns uid f st = st"
      using Some by (auto simp: uploadCharts_def Let_def)
    then show ?thesis by simp
  qed
qed

lemma upload_charts:
  "\<exists>new. charts (fst (upload ns uid st rq)) = charts st @ new
     \<and> (\<forall>c \<in> set new. labelsMatchData (chartConfig c) \<and> createdBy c = uid
            \<and> sourceFile c = nextId st)"
proof (cases rq)
  case None
  then show ?thesis by (simp add: upload_def)
next
  case (Some rf)
  let ?st0 = "st\<lparr>disk := (disk st)(rf_path rf := Some (rf_content rf))\<rparr>"
  let ?f = "\<lparr>fid = nextId ?st0, filename = rf_filename rf, originalName = rf_originalname rf,
             mimetype = rf_mimetype rf, fsize = rf_size rf, path = rf_path rf, uploadedBy = uid\<rparr>"
  let ?st2 = "(spendId ?st0)\<lparr>files := files (spendId ?st0) @ [?f]\<rparr>"
  show ?thesis
  proof (cases "validFile ?f")
    case False
    then have "fst (upload ns uid st rq) = spendId ?st0"
      using Some by (simp add: upload_def Let_def)
    then show ?thesis by (simp add: spendId_def)
  next
    case True
    then have eq: "fst (upload ns uid st rq) = uploadCharts ns uid ?f ?st2"
      using Some by (simp add: upload_def Let_def)
    from uploadCharts_charts [of ns uid ?f ?st2] obtain new where
      "charts (uploadCharts ns uid ?f ?st2) = charts ?st2 @ new"
      "\<forall>c \<in> set new. labelsMatchData (chartConfig c) \<and> sourceFile c = fid ?f \<and> createdBy c = uid"
      by blast
    then show ?thesis unfolding eq
      by (intro exI [of _ new]) (simp add: spendId_def)
  qed
qed

text \<open>
  C10. Whatever manual creation, bulk auto-generation or an upload leaves in the store, a
  chart that was not there before has a configuration whose \<open>labels\<close> are as many as the
  \<open>data\<close> of its first dataset.
\<close>

theorem persisted_config_lengths:
  "(\<forall>c \<in> set (charts (fst (createChart ns uid st req))).
       c \<in> set (charts st) \<or> labelsMatchData (chartConfig c))
   \<and> (\<forall>c \<in> set (charts (fst (autogen ns uid st))).
       c \<in> set (charts st) \<or> labelsMatchData (chartConfig c))
   \<and> (\<forall>c \<in> set (charts (fst (upload ns uid st rq))).
       c \<in> set (charts st) \<or> labelsMatchData (chartConfig c))"
proof (intro conjI)
  show "\<forall>c \<in> set (charts (fst (createChart ns uid st req))).
       c \<in> set (charts st) \<or> labelsMatchData (chartConfig c)"
    using createChart_charts [of ns uid st req] by auto
  show "\<forall>c \<in> set (charts (fst (autogen ns uid st))).
       c \<in> set (charts st) \<or> labelsMatchData (chartConfig c)"
    using autogen_charts [of ns uid st] by auto
  show "\<forall>c \<in> set (charts (fst (upload ns uid st rq))).
       c \<in> set (charts st) \<or> labelsMatchData (chartConfig c)"
    using upload_charts [of ns uid st rq] by auto
qed

subsection \<open>Worked runs of the routes\<close>

lemmas route_eval =
  createChart_def autogen_def autogenFile_def autogenDraft_def autoConfig_def upload_def
  uploadCharts_def
  uploadDraft_def readSheet_def saveChart_def spendId_def validChart_def validFile_def
  chartTypeEnum_def indexOf_def strictEq_def manualConfig_def cleanDataManual_def
  cleanDataAuto_def nonEmptyRows_def columnAnalysis_def analyseColumn_def columnValues_def
  columnsOfType_def List.map_filter_def enumerate_eq_zip xlsxType_def Let_def

lemma salesStore_createChart:
  "charts (fst (createChart numberToString 7 salesStore salesRequest))
     = [\<lparr>cid = 1, title = ''Sales by city'', description = None, chartType = ''bar'',
         chartConfig = \<lparr>labels = [JStr ''NY'', JStr ''LA'', JStr ''NY''],
           datasets = [\<lparr>label = JStr ''Sales'',
                        data = [JNum (Fin 100), JNum (Fin 200), JNum (Fin 50)]\<rparr>]\<rparr>,
         sourceFile = 0, createdBy = 7, isPublic = False,
         tags = [JStr ''City'', JStr ''Sales'']\<rparr>]"
  by (simp add: route_eval js_eval salesStore_def salesRequest_def salesFile_def salesSheet_def)

lemma salesStore_autogen:
  "charts (fst (autogen numberToString 7 salesStore))
     = [\<lparr>cid = 1, title = ''sales.xlsx - Sales by City'',
         description = Some ''Auto-generated bar chart from sales.xlsx'', chartType = ''bar'',
         chartConfig = \<lparr>labels = [JStr ''NY'', JStr ''LA'', JStr ''NY''],
           datasets = [\<lparr>label = JStr ''Sales'',
                        data = [JNum (Fin 100), JNum (Fin 200), JNum (Fin 50)]\<rparr>]\<rparr>,
         sourceFile = 0, createdBy = 7, isPublic = False,
         tags = [JStr ''City'', JStr ''Sales'']\<rparr>]"
  by (simp add: route_eval js_eval salesStore_def salesFile_def salesSheet_def)

lemma pairUpload_charts:
  "map (\<lambda>c. (cid c, chartType c, labels (chartConfig c), map data (datasets (chartConfig c))))
     (charts (fst (upload numberToString 7 emptyStore (Some pairUpload))))
   = [(1, ''bar'', [JNum (Fin 1), JNum (Fin 1)], [[JNum (Fin 10), JNum (Fin 30)]]),
      (2, ''line'', [JNum (Fin 1), JNum (Fin 1)], [[JNum (Fin 10), JNum (Fin 30)]]),
      (3, ''pie'', [JNum (Fin 1), JNum (Fin 1)], [[JNum (Fin 10), JNum (Fin 30)]])]"
  by (simp add: route_eval js_eval emptyStore_def pairUpload_def pairSheet_def)


theorem persisted_config_lengths_witness:
  "length (charts (fst (createChart numberToString 7 salesStore salesRequest))) = 1
   \<and> list_all (\<lambda>c. labelsMatchData (chartConfig c))
        (charts (fst (createChart numberToString 7 salesStore salesRequest)))
   \<and> length (charts (fst (autogen numberToString 7 salesStore))) = 1
   \<and> list_all (\<lambda>c. labelsMatchData (chartConfig c))
        (charts (fst (autogen numberToString 7 salesStore)))
   \<and> length (charts (fst (upload numberToString 7 emptyStore (Some pairUpload)))) = 3
   \<and> list_all (\<lambda>c. labelsMatchData (chartConfig c))
        (charts (fst (upload numberToString 7 emptyStore (Some pairUpload))))"
proof -
  have none: "charts salesStore = []" "charts emptyStore = []"
    by (simp_all add: salesStore_def emptyStore_def)
  have len: "length (charts (fst (createChart numberToString 7 salesStore salesRequest))) = 1"
    "length (charts (fst (autogen numberToString 7 salesStore))) = 1"
    by (simp_all add: salesStore_createChart salesStore_autogen)
  have "length (map (\<lambda>c. (cid c, chartType c, labels (chartConfig c),
            map data (datasets (chartConfig c))))
          (charts (fst (upload numberToString 7 emptyStore (Some pairUpload))))) = 3"
    unfolding pairUpload_charts by simp
  then have len3: "length (charts (fst (upload numberToString 7 emptyStore (Some pairUpload)))) = 3"
    by simp
  show ?thesis
    using persisted_config_lengths [of numberToString 7 salesStore salesRequest "Some pairUpload"]
      persisted_config_lengths [of numberToString 7 emptyStore salesRequest "Some pairUpload"]
      none len len3
    by (simp add: list_all_iff)
qed

subsection \<open>Upload followed by bulk auto-generation\<close>

text \<open>
  C4 as stated: uploading the sheet \<open>[["City","Sales"],["NY",100],["LA",200],["NY",50]]\<close>
  does not by itself produce a chart. The upload handler builds charts only when the first
  data row has two numeric cells; here it has one, so the store holds no chart after the
  upload.
\<close>

theorem upload_alone_makes_no_chart:
  "charts (fst (upload numberToString 7 emptyStore (Some salesUpload))) = []"
  by (simp add: route_eval js_eval emptyStore_def salesUpload_def salesSheet_def)

text \<open>
  C4, amended. After the upload of that sheet, the bulk auto-generation of the same user
  creates exactly one chart: a bar chart with labels \<open>NY, LA, NY\<close> and data
  \<open>100, 200, 50\<close>, one point per row and nothing aggregated.
\<close>

theorem upload_then_autogen_bar_chart:
  "map (\<lambda>c. (chartType c, labels (chartConfig c), map data (datasets (chartConfig c))))
     (charts (fst (autogen ns 7 (fst (upload ns 7 emptyStore (Some salesUpload))))))
   = [(''bar'', [JStr ''NY'', JStr ''LA'', JStr ''NY''],
       [[JNum (Fin 100), JNum (Fin 200), JNum (Fin 50)]])]"
  by (simp add: route_eval js_eval emptyStore_def salesUpload_def salesSheet_def)

subsection \<open>Manual creation with a column that is not in the header row\<close>

text \<open>
  C7 as stated: a request whose column is absent from the header row is not always
  rejected as column-not-found. The checks run in order, and a sheet with a header row and
  no data row is rejected earlier, as not holding enough data.
\<close>

theorem unknown_column_other_rejection:
  "indexOf (hd headerSheet) (JStr (r_xColumn regionRequest)) = None
   \<and> createChart numberToString 7 headerStore regionRequest = (headerStore, Inl NotEnoughData)
   \<and> NotEnoughData \<noteq> ColumnNotFound"
  by (simp add: route_eval indexOf_def strictEq_def headerSheet_def regionRequest_def
      headerStore_def salesFile_def NotEnoughData_def ColumnNotFound_def)

text \<open>
  C7, amended. A manual creation request for a readable file, one of whose two column
  names does not occur in the header row, is rejected and leaves the store as it was: no
  chart record is created. When the request has passed the earlier checks (title, chart
  type and column names present, the file owned by the caller, at least two rows in the
  sheet, a non-empty data row), the rejection is the column-not-found one.
\<close>

theorem createChart_unknown_column:
  assumes "find (\<lambda>f. Some (fid f) = r_sourceFile req) (files st) = Some f"
    and "readSheet st (path f) = Some json"
    and "indexOf (hd json) (JStr (r_xColumn req)) = None
         \<or> indexOf (hd json) (JStr (r_yColumn req)) = None"
  shows "fst (createChart ns uid st req) = st
         \<and> (\<exists>r. snd (createChart ns uid st req) = Inl r)
         \<and> (r_title req \<noteq> [] \<and> r_chartType req \<noteq> [] \<and> r_xColumn req \<noteq> []
              \<and> r_yColumn req \<noteq> [] \<and> uploadedBy f = uid \<and> 2 \<le> length json
              \<and> nonEmptyRows json \<noteq> []
            \<longrightarrow> snd (createChart ns uid st req) = Inl ColumnNotFound)"
proof -
  have src: "r_sourceFile req = Some (fid f)"
    using assms(1) by (auto simp: find_Some_iff)
  show ?thesis
    using assms src
    by (auto simp: createChart_def Let_def split: option.splits)
qed

theorem createChart_unknown_column_witness:
  "find (\<lambda>f. Some (fid f) = r_sourceFile regionRequest) (files salesStore) = Some salesFile
   \<and> readSheet salesStore (path salesFile) = Some salesSheet
   \<and> indexOf (hd salesSheet) (JStr (r_xColumn regionRequest)) = None
   \<and> createChart numberToString 7 salesStore regionRequest = (salesStore, Inl ColumnNotFound)"
proof -
  have h1: "find (\<lambda>f. Some (fid f) = r_sourceFile regionRequest) (files salesStore) = Some salesFile"
    by (simp add: regionRequest_def salesStore_def salesFile_def)
  have h2: "readSheet salesStore (path salesFile) = Some salesSheet"
    by (simp add: readSheet_def salesStore_def salesFile_def)
  have h3: "indexOf (hd salesSheet) (JStr (r_xColumn regionRequest)) = None"
    by (simp add: indexOf_def strictEq_def salesSheet_def regionRequest_def)
  have pre: "r_title regionRequest \<noteq> [] \<and> r_chartType regionRequest \<noteq> []
      \<and> r_xColumn regionRequest \<noteq> [] \<and> r_yColumn regionRequest \<noteq> []
      \<and> uploadedBy salesFile = 7 \<and> 2 \<le> length salesSheet \<and> nonEmptyRows salesSheet \<noteq> []"
    by (simp add: regionRequest_def salesFile_def salesSheet_def nonEmptyRows_def)
  from createChart_unknown_column [OF h1 h2 disjI1 [OF h3], of numberToString 7] pre
  have "fst (createChart numberToString 7 salesStore regionRequest) = salesStore"
    "snd (createChart numberToString 7 salesStore regionRequest) = Inl ColumnNotFound"
    by blast+
  then have "createChart numberToString 7 salesStore regionRequest = (salesStore, Inl ColumnNotFound)"
    by (simp add: prod_eq_iff)
  with h1 h2 h3 show ?thesis by simp
qed

subsection \<open>The cap on the cleaned data points\<close>

lemma cleanDataAuto_take:
  "cleanDataAuto rows xi yi = take 20 (filter validPoint (map (rowPoint xi yi) rows))"
proof -
  have "(\<lambda>item. fst item \<noteq> JNull \<and> fst item \<noteq> JUndefined \<and> fst item \<noteq> JStr []
                \<and> \<not> js_isNaN (snd item)) = validPoint"
    by (rule ext) (simp add: validPoint_def)
  moreover have "(\<lambda>row. (cellAt row xi, orZero (js_Number (cellAt row yi)))) = rowPoint xi yi"
    by (rule ext) (simp add: rowPoint_def)
  ultimately show ?thesis
    by (simp add: cleanDataAuto_def)
qed

lemma cleanDataManual_take:
  "cleanDataManual ct rows xi yi = take 50 (filter validPoint (map (rowPoint xi yi) rows))"
proof -
  have "(\<lambda>item. let hasValidX = (fst item \<noteq> JNull \<and> fst item \<noteq> JUndefined \<and> fst item \<noteq> JStr []);
                    hasValidY = (\<not> js_isNaN (snd item))
                in hasValidX \<and> hasValidY) = validPoint"
    by (rule ext) (simp add: validPoint_def Let_def)
  moreover have "(\<lambda>row. (cellAt row xi,
                        if ct = ''pie'' \<or> ct = ''doughnut''
                        then orZero (js_Number (cellAt row yi))
                        else orZero (js_Number (cellAt row yi)))) = rowPoint xi yi"
    by (rule ext) (simp add: rowPoint_def)
  ultimately show ?thesis
    by (simp add: cleanDataManual_def)
qed

text \<open>The filter's test on Y never fails: a pair is kept exactly when its X is present.\<close>

lemma validPoint_rowPoint:
  "validPoint (rowPoint xi yi row) = (\<not> isBlank (cellAt row xi))"
  by (simp add: validPoint_def rowPoint_def isBlank_def orZero_def js_isNaN_def)

lemma autogenDraft_config:
  assumes "autogenDraft ns uid f json newId = Inr c"
  shows "chartConfig c
           = autoConfig ns (hd (columnsOfType Numeric (columnAnalysis (hd json) (nonEmptyRows json))))
               (cleanDataAuto (nonEmptyRows json)
                  (index (hd (columnsOfType Categorical
                                (columnAnalysis (hd json) (nonEmptyRows json)))))
                  (index (hd (columnsOfType Numeric
                                (columnAnalysis (hd json) (nonEmptyRows json))))))"
  using assms
  by (auto simp: autogenDraft_def Let_def split: if_splits)

lemma aggregate_same_label:
  "foldl (aggStep ns) [(''A'', JNum (Fin q))] (replicate n (JStr ''A'', Fin 1))
     = [(''A'', JNum (Fin (q + of_nat n)))]"
proof (induction n arbitrary: q)
  case 0
  then show ?case by simp
next
  case (Suc n)
  have "aggStep ns [(''A'', JNum (Fin q))] (JStr ''A'', Fin 1) = [(''A'', JNum (Fin (q + 1)))]"
    by (simp add: aggStep_def getProp_def orZeroP_def plusP_def setProp_def)
  then show ?case using Suc.IH [of "q + 1"] by (simp add: add.assoc add.commute)
qed

lemma aggregate_replicate:
  "aggregate ns (replicate (Suc n) (JStr ''A'', Fin 1)) = [(''A'', JNum (Fin (1 + of_nat n)))]"
proof -
  have "aggStep ns [] (JStr ''A'', Fin 1) = [(''A'', JNum (Fin 1))]"
    by (simp add: aggStep_def getProp_def orZeroP_def plusP_def setProp_def protoToString_def
        protoMethods_def)
  then show ?thesis
    by (simp add: aggregate_def aggregate_same_label)
qed

lemma rowA_point:
  "rowPoint 0 (Suc 0) rowA = (JStr ''A'', Fin 1)" "validPoint (JStr ''A'', Fin 1)"
  by (simp_all add: rowA_def rowPoint_def validPoint_def js_eval)

lemma rowA_points:
  "filter validPoint (map (rowPoint 0 1) (replicate n rowA)) = replicate n (JStr ''A'', Fin 1)"
  by (simp add: rowA_point)

text \<open>
  C6 as stated: manual creation does not always emit 50 data points from 100 valid rows.
  For a pie chart the 50 rows that survive the cap are aggregated by label; a hundred rows
  with the one label \<open>A\<close> give a configuration with a single data point.
\<close>

theorem manual_pie_fewer_than_cap:
  "length (filter validPoint (map (rowPoint 0 1) (replicate 100 rowA))) = 100
   \<and> map (\<lambda>d. length (data d))
        (datasets (manualConfig numberToString ''pie'' (hd salesSheet) 1
                     (cleanDataManual ''pie'' (replicate 100 rowA) 0 1))) = [1]"
proof -
  have "take 50 (replicate 100 (JStr ''A'', Fin (1::rat))) = replicate (Suc 49) (JStr ''A'', Fin 1)"
    by simp
  then have "aggregate numberToString (cleanDataManual ''pie'' (replicate 100 rowA) 0 1)
      = [(''A'', JNum (Fin (1 + of_nat 49)))]"
    by (simp only: cleanDataManual_take rowA_points aggregate_replicate)
  then show ?thesis
    by (simp add: rowA_point manualConfig_def Object_values_def ownEntries_def arrayIndex_def
        natLit_def digitOf_def)
qed

text \<open>
  C6, amended. Both pipelines keep the first cleaned pairs in row order: bulk
  auto-generation the first 20, manual creation the first 50. The configuration of bulk
  auto-generation holds exactly these pairs, so 20 data points when at least 20 rows are
  valid. The configuration of manual creation holds exactly these pairs for every chart
  type other than \<open>pie\<close> and \<open>doughnut\<close>, so 50 data points when at least 50 rows are
  valid; for \<open>pie\<close> and \<open>doughnut\<close> it holds the aggregation of these 50 pairs.
\<close>

theorem cleaned_points_capped:
  "cleanDataAuto rows xi yi = take 20 (filter validPoint (map (rowPoint xi yi) rows))
   \<and> labels (autoConfig ns yColumn (cleanDataAuto rows xi yi))
       = map (\<lambda>item. JStr (js_String ns (fst item)))
           (take 20 (filter validPoint (map (rowPoint xi yi) rows)))
   \<and> map data (datasets (autoConfig ns yColumn (cleanDataAuto rows xi yi)))
       = [map (\<lambda>item. JNum (snd item)) (take 20 (filter validPoint (map (rowPoint xi yi) rows)))]
   \<and> (20 \<le> length (filter validPoint (map (rowPoint xi yi) rows))
        \<longrightarrow> length (labels (autoConfig ns yColumn (cleanDataAuto rows xi yi))) = 20
          \<and> map (\<lambda>d. length (data d)) (datasets (autoConfig ns yColumn (cleanDataAuto rows xi yi)))
              = [20])
   \<and> cleanDataManual ct rows xi yi = take 50 (filter validPoint (map (rowPoint xi yi) rows))
   \<and> (ct \<noteq> ''pie'' \<and> ct \<noteq> ''doughnut''
        \<longrightarrow> labels (manualConfig ns ct headers yi (cleanDataManual ct rows xi yi))
              = map (\<lambda>item. JStr (js_String ns (fst item)))
                  (take 50 (filter validPoint (map (rowPoint xi yi) rows)))
          \<and> map data (datasets (manualConfig ns ct headers yi (cleanDataManual ct rows xi yi)))
              = [map (\<lambda>item. JNum (snd item))
                   (take 50 (filter validPoint (map (rowPoint xi yi) rows)))]
          \<and> (50 \<le> length (filter validPoint (map (rowPoint xi yi) rows))
               \<longrightarrow> length (labels (manualConfig ns ct headers yi (cleanDataManual ct rows xi yi))) = 50
                 \<and> map (\<lambda>d. length (data d))
                       (datasets (manualConfig ns ct headers yi (cleanDataManual ct rows xi yi)))
                     = [50]))
   \<and> (ct = ''pie'' \<or> ct = ''doughnut''
        \<longrightarrow> labels (manualConfig ns ct headers yi (cleanDataManual ct rows xi yi))
              = map JStr (Object_keys
                  (aggregate ns (take 50 (filter validPoint (map (rowPoint xi yi) rows)))))
          \<and> map data (datasets (manualConfig ns ct headers yi (cleanDataManual ct rows xi yi)))
              = [Object_values
                  (aggregate ns (take 50 (filter validPoint (map (rowPoint xi yi) rows))))])"
  by (simp add: cleanDataAuto_take cleanDataManual_take autoConfig_def manualConfig_def Let_def)

theorem cleaned_points_capped_witness:
  "20 \<le> length (filter validPoint (map (rowPoint 0 1) (replicate 100 rowA)))
   \<and> 50 \<le> length (filter validPoint (map (rowPoint 0 1) (replicate 100 rowA)))
   \<and> ''bar'' \<noteq> ''pie'' \<and> ''bar'' \<noteq> ''doughnut''
   \<and> length (labels (autoConfig numberToString (analyseColumn (replicate 100 rowA) 1 (JStr ''Sales''))
                        (cleanDataAuto (replicate 100 rowA) 0 1))) = 20
   \<and> length (labels (manualConfig numberToString ''bar'' (hd salesSheet) 1
                        (cleanDataManual ''bar'' (replicate 100 rowA) 0 1))) = 50"
proof -
  have h: "20 \<le> length (filter validPoint (map (rowPoint 0 1) (replicate 100 rowA)))"
    "50 \<le> length (filter validPoint (map (rowPoint 0 1) (replicate 100 rowA)))"
    "''bar'' \<noteq> ''pie'' \<and> ''bar'' \<noteq> ''doughnut''"
    by (simp_all add: rowA_point)
  show ?thesis
    using h cleaned_points_capped [of "replicate 100 rowA" 0 1 numberToString
        "analyseColumn (replicate 100 rowA) 1 (JStr ''Sales'')" "''bar''" "hd salesSheet"]
    by blast
qed

subsection \<open>Aggregation for pie and doughnut charts\<close>















lemmas agg_eval =
  manualConfig_def aggregate_def aggStep_def getProp_def setProp_def orZeroP_def plusP_def
  protoToString_def protoMethods_def Object_keys_def Object_values_def ownEntries_def
  arrayIndex_def indexKey_def natLit_def digitOf_def Let_def




text \<open>Names that \<open>Object.prototype\<close> defines do not behave as labels.\<close>

lemma pie_prototype_names:
  "labels (manualConfig ns ''pie'' headers yIdx
             [(JStr ''constructor'', Fin 3), (JStr ''__proto__'', Fin 4), (JStr ''A'', Fin 5)])
     = [JStr ''constructor'', JStr ''A'']"
  "map data (datasets (manualConfig ns ''pie'' headers yIdx
             [(JStr ''constructor'', Fin 3), (JStr ''__proto__'', Fin 4), (JStr ''A'', Fin 5)]))
     = [[JStr (''function Object() { [native code] }'' @ ns (Fin 3)), JNum (Fin 5)]]"
  by (simp_all add: agg_eval)

text \<open>An intermediate \<open>NaN\<close> is replaced by zero, so the result is not the sum.\<close>

lemma pie_infinite_values:
  "map data (datasets (manualConfig ns ''pie'' headers yIdx
             [(JStr ''A'', PosInf), (JStr ''A'', NegInf), (JStr ''A'', Fin 5)]))
     = [[JNum (Fin 5)]]"
  by (simp add: agg_eval)

subsection \<open>The bulk loop, file by file\<close>

lemma autogenDraft_id:
  "autogenDraft ns uid f json n = Inl why \<Longrightarrow> autogenDraft ns uid f json m = Inl why"
  "autogenDraft ns uid f json n = Inr c \<Longrightarrow> autogenDraft ns uid f json m = Inr (c\<lparr>cid := m\<rparr>)"
  by (auto simp: autogenDraft_def Let_def split: if_splits)

lemma validChart_cid: "validChart (c\<lparr>cid := m\<rparr>) = validChart c"
  by (simp add: validChart_def)

lemma readSheet_disk: "disk st1 = disk st \<Longrightarrow> readSheet st1 p = readSheet st p"
  by (simp add: readSheet_def)

lemma perFileFailure_disk:
  "disk st1 = disk st \<Longrightarrow> perFileFailure ns uid st1 f = perFileFailure ns uid st f"
  by (simp add: perFileFailure_def readSheet_def)

lemma fileVerdict_disk:
  "disk st1 = disk st \<Longrightarrow> fileVerdict ns uid st1 f = fileVerdict ns uid st f"
  by (simp add: fileVerdict_def readSheet_def)

lemma autogenFile_failure:
  assumes "perFileFailure ns uid st f"
  shows "\<exists>why. autogenFile ns uid st f = (st, Inl why)"
proof (cases "readSheet st (path f)")
  case None
  then show ?thesis by (simp add: autogenFile_def)
next
  case (Some json)
  with assms obtain why where "autogenDraft ns uid f json 0 = Inl why"
    by (auto simp: perFileFailure_def split: sum.splits)
  then have "autogenDraft ns uid f json (nextId st) = Inl why"
    by (rule autogenDraft_id(1))
  then show ?thesis using Some by (simp add: autogenFile_def)
qed

lemma autogenLoop_skip:
  assumes "perFileFailure ns uid st f"
  shows "autogenLoop ns uid (pre @ f # post) st acc = autogenLoop ns uid (pre @ post) st acc"
  using assms
proof (induction pre arbitrary: st acc)
  case Nil
  from autogenFile_failure [OF Nil] obtain why where "autogenFile ns uid st f = (st, Inl why)" ..
  then show ?case by simp
next
  case (Cons g pre)
  obtain st1 r where step: "autogenFile ns uid st g = (st1, r)"
    by (cases "autogenFile ns uid st g")
  have "perFileFailure ns uid st1 f"
    using Cons.prems autogenFile_frame [OF step] perFileFailure_disk [of st1 st ns uid f] by simp
  note ih = Cons.IH [OF this]
  show ?case
  proof (cases r)
    case (Inl why)
    then show ?thesis using step ih [of acc] by simp
  next
    case (Inr c)
    then show ?thesis using step ih [of "acc @ [c]"] by simp
  qed
qed

lemma autogenFile_verdict:
  assumes "autogenFile ns uid st f = (st', r)"
  shows "(\<exists>c. r = Inr c)
         = (find (\<lambda>c. sourceFile c = fid f \<and> createdBy c = uid) (charts st) = None
            \<and> fileVerdict ns uid st f)"
proof (cases "find (\<lambda>c. sourceFile c = fid f \<and> createdBy c = uid) (charts st) = None
              \<and> (includesJ (mimetype f) ''excel'' \<or> includesJ (mimetype f) ''spreadsheetml'')")
  case False
  then have "autogenFile ns uid st f = (st, Inl ChartExists)
             \<or> autogenFile ns uid st f = (st, Inl NotExcel)"
    by (auto simp: autogenFile_def)
  then show ?thesis using assms False by (auto simp: fileVerdict_def)
next
  case True
  show ?thesis
  proof (cases "readSheet st (path f)")
    case None
    then have "autogenFile ns uid st f = (st, Inl Thrown)"
      using True by (auto simp: autogenFile_def)
    then show ?thesis using assms None by (auto simp: fileVerdict_def)
  next
    case (Some json)
    show ?thesis
    proof (cases "autogenDraft ns uid f json (nextId st)")
      case (Inl why)
      then have "autogenDraft ns uid f json 0 = Inl why" by (rule autogenDraft_id(1))
      moreover have "autogenFile ns uid st f = (st, Inl why)"
        using True Some Inl by (auto simp: autogenFile_def)
      ultimately show ?thesis using assms Some by (auto simp: fileVerdict_def)
    next
      case (Inr c)
      then have zero: "autogenDraft ns uid f json 0 = Inr (c\<lparr>cid := 0\<rparr>)"
        by (rule autogenDraft_id(2))
      have verdict: "fileVerdict ns uid st f = validChart c"
        using True Some zero by (auto simp: fileVerdict_def validChart_cid)
      show ?thesis
      proof (cases "validChart c")
        case valid: True
        then have "autogenFile ns uid st f = ((spendId st)\<lparr>charts := charts (spendId st) @ [c]\<rparr>, Inr c)"
          using True Some Inr by (auto simp: autogenFile_def saveChart_def)
        then show ?thesis using assms valid verdict True by auto
      next
        case invalid: False
        then have "autogenFile ns uid st f = (spendId st, Inl Thrown)"
          using True Some Inr by (auto simp: autogenFile_def saveChart_def)
        then show ?thesis using assms invalid verdict by auto
      qed
    qed
  qed
qed


lemma autogenFile_files:
  "autogenFile ns uid (st\<lparr>files := X\<rparr>) f
     = (case autogenFile ns uid st f of (st', r) \<Rightarrow> (st'\<lparr>files := X\<rparr>, r))"
  by (simp add: autogenFile_def readSheet_def saveChart_def spendId_def
      split: option.splits sum.splits)

lemma autogenLoop_files:
  "autogenLoop ns uid fs (st\<lparr>files := X\<rparr>) acc
     = (case autogenLoop ns uid fs st acc of (st', acc') \<Rightarrow> (st'\<lparr>files := X\<rparr>, acc'))"
proof (induction fs arbitrary: st acc)
  case Nil
  then show ?case by simp
next
  case (Cons f fs)
  obtain st1 r where step: "autogenFile ns uid st f = (st1, r)"
    by (cases "autogenFile ns uid st f")
  then have step': "autogenFile ns uid (st\<lparr>files := X\<rparr>) f = (st1\<lparr>files := X\<rparr>, r)"
    by (simp add: autogenFile_files)
  show ?case
  proof (cases r)
    case (Inl why)
    then show ?thesis using step step' Cons.IH [of st1 acc] by simp
  next
    case (Inr c)
    then show ?thesis using step step' Cons.IH [of st1 "acc @ [c]"] by simp
  qed
qed

lemma autogen_without_failing_file:
  assumes "perFileFailure ns uid st f" and "files st = pre @ f # post"
  shows "charts (fst (autogen ns uid st)) = charts (fst (autogen ns uid (st\<lparr>files := pre @ post\<rparr>)))"
    and "snd (autogen ns uid st) = snd (autogen ns uid (st\<lparr>files := pre @ post\<rparr>))"
proof -
  let ?P = "\<lambda>g. uploadedBy g = uid"
  let ?st2 = "st\<lparr>files := pre @ post\<rparr>"
  have loop: "autogenLoop ns uid (filter ?P (files st)) st []
                = autogenLoop ns uid (filter ?P (pre @ post)) st []"
  proof (cases "?P f")
    case True
    then show ?thesis
      using autogenLoop_skip [OF assms(1), of "filter ?P pre" "filter ?P post" "[]"] assms(2)
      by simp
  next
    case False
    then show ?thesis using assms(2) by simp
  qed
  obtain st' acc' where res: "autogenLoop ns uid (filter ?P (pre @ post)) st [] = (st', acc')"
    by (cases "autogenLoop ns uid (filter ?P (pre @ post)) st []")
  have res2: "autogenLoop ns uid (filter ?P (pre @ post)) ?st2 [] = (st'\<lparr>files := pre @ post\<rparr>, acc')"
    using res by (simp add: autogenLoop_files)
  have a1: "autogen ns uid st = (st', \<lparr>status = 201, message = ''Auto-generated charts'',
          created = length acc', details = map (\<lambda>c. (title c, cid c)) acc'\<rparr>)"
    using loop res by (simp add: autogen_def)
  have a2: "autogen ns uid ?st2 = (st'\<lparr>files := pre @ post\<rparr>,
          \<lparr>status = 201, message = ''Auto-generated charts'',
          created = length acc', details = map (\<lambda>c. (title c, cid c)) acc'\<rparr>)"
    using res2 by (simp add: autogen_def)
  show "charts (fst (autogen ns uid st)) = charts (fst (autogen ns uid ?st2))"
    by (simp add: a1 a2)
  show "snd (autogen ns uid st) = snd (autogen ns uid ?st2)"
    by (simp add: a1 a2)
qed

text \<open>
  C8. Bulk auto-generation is best effort. A file of the user whose chart cannot be built
  (its sheet cannot be read, or has too few rows, no pair of usable columns or no valid
  data point) is passed over and nothing else changes: the charts in the store and the
  response are those of the same run without that file, so the files before and after it
  are processed as they would be. The run always answers with status 201, the number of
  charts it created and, for each of them, its title and identifier; these are exactly the
  charts it added to the store.
\<close>

theorem autogen_best_effort:
  assumes "perFileFailure ns uid st f" and "files st = pre @ f # post"
  shows "charts (fst (autogen ns uid st))
           = charts (fst (autogen ns uid (st\<lparr>files := pre @ post\<rparr>)))
         \<and> snd (autogen ns uid st) = snd (autogen ns uid (st\<lparr>files := pre @ post\<rparr>))
         \<and> (\<exists>new. charts (fst (autogen ns uid st)) = charts st @ new
                \<and> status (snd (autogen ns uid st)) = 201
                \<and> created (snd (autogen ns uid st)) = length new
                \<and> details (snd (autogen ns uid st)) = map (\<lambda>c. (title c, cid c)) new)"
proof -
  from autogen_charts [of ns uid st] obtain new where
    "charts (fst (autogen ns uid st)) = charts st @ new"
    "status (snd (autogen ns uid st)) = 201"
    "created (snd (autogen ns uid st)) = length new"
    "details (snd (autogen ns uid st)) = map (\<lambda>c. (title c, cid c)) new"
    by blast
  then have "\<exists>new. charts (fst (autogen ns uid st)) = charts st @ new
                \<and> status (snd (autogen ns uid st)) = 201
                \<and> created (snd (autogen ns uid st)) = length new
                \<and> details (snd (autogen ns uid st)) = map (\<lambda>c. (title c, cid c)) new"
    by (intro exI [of _ new]) simp
  then show ?thesis
    using autogen_without_failing_file [OF assms] by simp
qed

theorem autogen_best_effort_witness:
  "perFileFailure numberToString 7 mixedStore brokenFile
   \<and> files mixedStore = [] @ brokenFile # [salesFile]
   \<and> snd (autogen numberToString 7 mixedStore)
       = \<lparr>status = 201, message = ''Auto-generated charts'', created = 1,
          details = [(''sales.xlsx - Sales by City'', 2)]\<rparr>
   \<and> map (\<lambda>c. (cid c, sourceFile c)) (charts (fst (autogen numberToString 7 mixedStore)))
       = [(2, 0)]"
proof -
  have h1: "perFileFailure numberToString 7 mixedStore brokenFile"
    by (simp add: perFileFailure_def readSheet_def mixedStore_def brokenFile_def)
  have h2: "files mixedStore = [] @ brokenFile # [salesFile]"
    by (simp add: mixedStore_def)
  have r: "snd (autogen numberToString 7 (mixedStore\<lparr>files := [] @ [salesFile]\<rparr>))
       = \<lparr>status = 201, message = ''Auto-generated charts'', created = 1,
          details = [(''sales.xlsx - Sales by City'', 2)]\<rparr>"
    "map (\<lambda>c. (cid c, sourceFile c))
        (charts (fst (autogen numberToString 7 (mixedStore\<lparr>files := [] @ [salesFile]\<rparr>))))
       = [(2, 0)]"
    by (simp_all add: route_eval js_eval mixedStore_def salesFile_def salesSheet_def)
  show ?thesis
    using autogen_best_effort [OF h1 h2] h1 h2 r by simp
qed

end
